theory Spec2Isabelle
  imports Complex_Main "HOL-Library.AList"
begin

section \<open>pyECG\_graph: the data model of \<^verbatim>\<open>generate_ecg_graph\<close>\<close>

text \<open>
  The repository is one Python 2 function, \<^verbatim>\<open>generate_ecg_graph\<close> in
  \<^verbatim>\<open>pyECG_graph/pyECG.py\<close>, with five nested helpers. The embedding follows it
  line by line. Python floats (\<^verbatim>\<open>record_frequency\<close> and everything computed
  from it) are idealised as exact real numbers; for the default rate 250.0 and
  any rate whose products with the sample counts are exactly representable
  the two agree.
\<close>

subsection \<open>Python values and errors\<close>

text \<open>
  A sample of a trace is a Python scalar: \<^verbatim>\<open>None\<close> (the missing marker), an
  \<^verbatim>\<open>int\<close>, a \<^verbatim>\<open>float\<close> or a string. The two kinds of number are kept apart
  because numpy gives an array of \<^verbatim>\<open>int\<close> another element type than one that
  holds a \<^verbatim>\<open>float\<close>. An \<^verbatim>\<open>int\<close> is one that fits 64 bits; what numpy makes
  of a larger one, and a sequence as a sample, are not modelled.
\<close>

datatype sample = SNone | SInt int | SFloat real | SStr string

text \<open>
  The argument \<^verbatim>\<open>ecg_data\<close>, and what the literal in a file evaluates to:
  \<^verbatim>\<open>None\<close>, a number, a string, a tuple, or a list of samples. Other kinds
  of Python value are not modelled.
\<close>

datatype pyval = PyNone | PyNum real | PyStr string | PyTuple "pyval list" | PyList "sample list"

text \<open>The three \<^verbatim>\<open>sys.exit\<close> calls of \<^verbatim>\<open>get_ecg_data\<close>, by their message.\<close>

datatype exit_reason =
    Record_path_not_provided
  | Record_path_is_invalid
  | Record_is_not_a_valid_list

text \<open>
  Every way the function ends without returning \<^verbatim>\<open>meta_data\<close>:
  the three logged \<^verbatim>\<open>return None\<close> (lines 143, 158, 252), \<^verbatim>\<open>sys.exit\<close>, and the
  uncaught Python exceptions that the arithmetic, the loops, the string
  formatting of line 47 and numpy can raise.
\<close>

datatype error =
    UnsupportedExport
  | InvalidRecord
  | SystemExit exit_reason
  | RenderingFailure
  | ValueError
  | ZeroDivisionError
  | UnboundLocalError
  | TypeError

subsection \<open>Python arithmetic and slicing\<close>

text \<open>\<^verbatim>\<open>round(x)\<close> of Python 2: to the nearest integer, halves away from zero.\<close>

definition py_round :: "real \<Rightarrow> int" where
  "py_round x = (if 0 \<le> x then \<lfloor>x + 1 / 2\<rfloor> else \<lceil>x - 1 / 2\<rceil>)"

text \<open>\<^verbatim>\<open>int(x)\<close> of a float: truncation towards zero.\<close>

definition py_int :: "real \<Rightarrow> int" where
  "py_int x = (if 0 \<le> x then \<lfloor>x\<rfloor> else \<lceil>x\<rceil>)"

text \<open>
  \<^verbatim>\<open>lst[a:b]\<close>: a negative index counts from the end, and both are clipped
  to the list.
\<close>

definition slice_index :: "nat \<Rightarrow> int \<Rightarrow> nat" where
  "slice_index len k = (if k < 0 then nat (int len + k) else min (nat k) len)"

definition py_slice :: "'a list \<Rightarrow> int \<Rightarrow> int \<Rightarrow> 'a list" where
  "py_slice lst a b =
     (let lo = slice_index (length lst) a; hi = slice_index (length lst) b
      in take (hi - lo) (drop lo lst))"

text \<open>The elements of a sequence after \<^verbatim>\<open>None\<close> is stored in its slice \<^verbatim>\<open>[a:b]\<close>.\<close>

definition set_slice_none :: "sample list \<Rightarrow> int \<Rightarrow> int \<Rightarrow> sample list" where
  "set_slice_none vector a b =
     (let lo = slice_index (length vector) a; hi = slice_index (length vector) b
      in take lo vector @ replicate (hi - lo) SNone @ drop (max lo hi) vector)"

subsection \<open>numpy arrays\<close>

text \<open>
  \<^verbatim>\<open>numpy.array(plot)\<close> of a list of scalars picks one element type for the
  whole array: \<^verbatim>\<open>object\<close> when a \<^verbatim>\<open>None\<close> is among them, else a string type
  when a string is, else \<^verbatim>\<open>float64\<close> when a \<^verbatim>\<open>float\<close> is (and for the empty
  list), else, all being \<^verbatim>\<open>int\<close>, an integer type.
\<close>

datatype dtype = Int_dtype | Float_dtype | String_dtype | Object_dtype

fun is_none :: "sample \<Rightarrow> bool" where
  "is_none SNone = True"
| "is_none _ = False"

fun is_int :: "sample \<Rightarrow> bool" where
  "is_int (SInt _) = True"
| "is_int _ = False"

fun is_float :: "sample \<Rightarrow> bool" where
  "is_float (SFloat _) = True"
| "is_float _ = False"

fun is_str :: "sample \<Rightarrow> bool" where
  "is_str (SStr _) = True"
| "is_str _ = False"

definition array_dtype :: "sample list \<Rightarrow> dtype" where
  "array_dtype plot =
     (if list_ex is_none plot then Object_dtype
      else if list_ex is_str plot then String_dtype
      else if list_ex is_float plot \<or> plot = [] then Float_dtype
      else Int_dtype)"

text \<open>
  A one-dimensional array is its element type and, position by position, the
  Python value that was put there. How numpy stores that value in the element
  type is not modelled: an \<^verbatim>\<open>int\<close> in a float array is the float of the same
  value, \<^verbatim>\<open>None\<close> in a float array is \<^verbatim>\<open>nan\<close>, which is drawn as a gap
  like \<^verbatim>\<open>None\<close>, and anything in a string array is its text.
\<close>

type_synonym ndarray = "dtype \<times> sample list"

definition numpy_array :: "sample list \<Rightarrow> ndarray" where
  "numpy_array plot = (array_dtype plot, plot)"

text \<open>
  \<^verbatim>\<open>vector[a:b] = None\<close>. An integer array cannot hold \<^verbatim>\<open>None\<close>: when the
  slice selects an element, numpy raises \<^verbatim>\<open>TypeError\<close>. The other element
  types take it.
\<close>

definition assign_none :: "ndarray \<Rightarrow> int \<Rightarrow> int \<Rightarrow> error + ndarray" where
  "assign_none vector a b =
     (let lo = slice_index (length (snd vector)) a; hi = slice_index (length (snd vector)) b
      in if fst vector = Int_dtype \<and> lo < hi then Inl TypeError
         else Inr (fst vector, set_slice_none (snd vector) a b))"

subsection \<open>The nested helpers\<close>

text \<open>
  \<^verbatim>\<open>chunks(l, n)\<close>: the generator over \<^verbatim>\<open>xrange(0, len(l), n)\<close>. A zero step
  makes \<^verbatim>\<open>xrange\<close> raise \<^verbatim>\<open>ValueError\<close>; a negative step gives no index.
\<close>

function chunks_from :: "nat \<Rightarrow> 'a list \<Rightarrow> nat \<Rightarrow> 'a list list" where
  "chunks_from i l n =
     (if n = 0 \<or> length l \<le> i then []
      else py_slice l (int i) (int (i + n)) # chunks_from (i + n) l n)"
  by pat_completeness auto
termination
  by (relation "measure (\<lambda>(i, l, n). length l - i)") auto

declare chunks_from.simps [simp del]

definition chunks :: "'a list \<Rightarrow> int \<Rightarrow> error + 'a list list" where
  "chunks l n =
     (if n = 0 then Inl ValueError
      else if n < 0 then Inr []
      else Inr (chunks_from 0 l (nat n)))"

text \<open>
  \<^verbatim>\<open>partition(lst, n)\<close>: \<^verbatim>\<open>n\<close> slices between rounded multiples of
  \<^verbatim>\<open>len(lst) / float(n)\<close>. \<^verbatim>\<open>n = 0\<close> divides by zero; a negative \<^verbatim>\<open>n\<close> makes
  \<^verbatim>\<open>xrange(n)\<close> empty.
\<close>

definition partition :: "'a list \<Rightarrow> int \<Rightarrow> error + 'a list list" where
  "partition lst n =
     (if n = 0 then Inl ZeroDivisionError
      else
        let division = real (length lst) / real_of_int n
        in Inr (map (\<lambda>i. py_slice lst (py_round (division * real i))
                                     (py_round (division * real (i + 1))))
                    [0..<nat n]))"

text \<open>
  \<^verbatim>\<open>numpy.pad(array, (before, after), function)\<close> on a one-dimensional array:
  numpy builds an array of the same element type with \<^verbatim>\<open>before\<close> and
  \<^verbatim>\<open>after\<close> zeros around the elements, lets the function overwrite that
  vector in place, and returns the vector; what the function returns is
  dropped. A padding function is therefore modelled by its effect on the
  vector, or the exception it raises, which numpy lets through.
\<close>

definition numpy_pad ::
  "ndarray \<Rightarrow> nat \<times> nat \<Rightarrow> (ndarray \<Rightarrow> nat \<times> nat \<Rightarrow> error + ndarray) \<Rightarrow> error + ndarray" where
  "numpy_pad arr pad_width func =
     func (fst arr,
           replicate (fst pad_width) (SInt 0) @ snd arr @ replicate (snd pad_width) (SInt 0))
          pad_width"

text \<open>
  \<^verbatim>\<open>padwithnone\<close>: unless the widths are \<^verbatim>\<open>(0,0)\<close>,
  \<^verbatim>\<open>vector[:pad_width[0]] = None\<close> and \<^verbatim>\<open>vector[-pad_width[1]:] = None\<close>.
  In Python \<^verbatim>\<open>-0\<close> is \<^verbatim>\<open>0\<close>, so a zero second width with a non-zero first
  one overwrites the whole vector.
\<close>

definition padwithnone :: "ndarray \<Rightarrow> nat \<times> nat \<Rightarrow> error + ndarray" where
  "padwithnone vector pad_width =
     (if pad_width \<noteq> (0, 0) then
        case assign_none vector 0 (int (fst pad_width)) of
          Inl e \<Rightarrow> Inl e
        | Inr v1 \<Rightarrow> assign_none v1 (- int (snd pad_width)) (int (length (snd v1)))
      else Inr vector)"

text \<open>
  \<^verbatim>\<open>prepadwithnone\<close>: unless the widths are \<^verbatim>\<open>(0,0)\<close>,
  \<^verbatim>\<open>vector[pad_width[0]:pad_width[1]] = None\<close>. The shortened slice it returns
  is the value numpy drops.
\<close>

definition prepadwithnone :: "ndarray \<Rightarrow> nat \<times> nat \<Rightarrow> error + ndarray" where
  "prepadwithnone vector pad_width =
     (if pad_width \<noteq> (0, 0) then
        assign_none vector (int (fst pad_width)) (int (snd pad_width))
      else Inr vector)"

text \<open>
  The outcome of \<^verbatim>\<open>open\<close>, \<^verbatim>\<open>read\<close> and \<^verbatim>\<open>ast.literal_eval\<close> on a path: the
  file system and the literal parser are outside the repository, so a file
  system is given as the function from a path to what they yield there.
\<close>

datatype file_read = Unreadable | Unparsable | Literal pyval

text \<open>
  Line 47 formats the log message with \<^verbatim>\<open>"... %s" % record_path\<close>. A
  tuple on the right of \<^verbatim>\<open>%\<close> is taken as the tuple of arguments, so any
  tuple but a one-element one raises \<^verbatim>\<open>TypeError\<close>; the line is in no
  \<^verbatim>\<open>try\<close>.
\<close>

definition format_raises :: "pyval \<Rightarrow> bool" where
  "format_raises record_path =
     (case record_path of PyTuple items \<Rightarrow> length items \<noteq> 1 | _ \<Rightarrow> False)"

text \<open>
  \<^verbatim>\<open>get_ecg_data(record_path)\<close>. \<^verbatim>\<open>open\<close> of a value that is not a string
  raises inside the first \<^verbatim>\<open>try\<close>, like an unreadable path.
\<close>

definition get_ecg_data :: "(string \<Rightarrow> file_read) \<Rightarrow> pyval \<Rightarrow> error + pyval" where
  "get_ecg_data fs record_path =
     (if format_raises record_path then Inl TypeError
      else if record_path = PyNone \<or> record_path = PyStr [] then
        Inl (SystemExit Record_path_not_provided)
      else
        case record_path of
          PyStr path \<Rightarrow>
            (case fs path of
               Unreadable \<Rightarrow> Inl (SystemExit Record_path_is_invalid)
             | Unparsable \<Rightarrow> Inl (SystemExit Record_is_not_a_valid_list)
             | Literal graph_list \<Rightarrow>
                 (case graph_list of
                    PyList _ \<Rightarrow> Inr graph_list
                  | _ \<Rightarrow> Inl (SystemExit Record_is_not_a_valid_list)))
        | _ \<Rightarrow> Inl (SystemExit Record_path_is_invalid))"

subsection \<open>Constants and results\<close>

text \<open>
  The constants block of lines 114--138 that the arithmetic uses. The
  drawing constants (resolution, image size, y limits) only reach the
  plotting library.
\<close>

record constants =
  one_strip_time :: int
  default_frequency :: real
  plot_scale :: string
  strips_per_page :: int

definition source_constants :: constants where
  "source_constants =
     \<lparr> one_strip_time = 8, default_frequency = 250,
       plot_scale = ''25mm/s, 10mm/mV'', strips_per_page = 4 \<rparr>"

text \<open>
  A Python dictionary is an association list with distinct keys:
  \<^verbatim>\<open>d[k] = v\<close> is \<^const>\<open>AList.update\<close>, a lookup is \<^const>\<open>map_of\<close>, and
  \<^verbatim>\<open>d.update(e)\<close> stores every item of \<^verbatim>\<open>e\<close> in turn.
\<close>

definition dict_update :: "('k \<times> 'v) list \<Rightarrow> ('k \<times> 'v) list \<Rightarrow> ('k \<times> 'v) list" where
  "dict_update d e = fold (\<lambda>(k, v). AList.update k v) e d"

text \<open>
  A value of the display dictionary: a string, an integer, or
  \<^verbatim>\<open>str(x) + suffix\<close> for a float \<^verbatim>\<open>x\<close> (the float's printed form is
  not modelled).
\<close>

datatype display = Text string | Number nat | Float_text real string

record meta_data =
  record_frequency :: real
  scale :: string
  signals_num :: nat
  record_time :: int
  output_files :: "(nat \<times> string) list"
  display_information :: "(string \<times> display) list"

text \<open>What a run does to the file system, in order.\<close>

datatype event = Written string | Removed string | Called_phantomjs string

text \<open>
  The result of a call: what it returns or how it fails, the caller's
  \<^verbatim>\<open>ecg_data\<close> object as it is afterwards, and the file events.
\<close>

record outcome =
  returned :: "error + meta_data"
  ecg_data_after :: pyval
  effects :: "event list"

text \<open>\<^verbatim>\<open>str(n)\<close> of an integer.\<close>

function str_nat :: "nat \<Rightarrow> string" where
  "str_nat n =
     (if n < 10 then [''0123456789'' ! n]
      else str_nat (n div 10) @ [''0123456789'' ! (n mod 10)])"
  by pat_completeness auto
termination
  by (relation "measure id") auto

declare str_nat.simps [simp del]

definition str_int :: "int \<Rightarrow> string" where
  "str_int i = (if i < 0 then CHR ''-'' # str_nat (nat (- i)) else str_nat (nat i))"

subsection \<open>The body of \<^verbatim>\<open>generate_ecg_graph\<close>\<close>

text \<open>Lines 160--162: 125 times \<^verbatim>\<open>record.insert(0, None)\<close>.\<close>

definition prepend_none :: "sample list \<Rightarrow> sample list" where
  "prepend_none record = fold (\<lambda>_ r. SNone # r) [0..<125] record"

text \<open>Line 169.\<close>

definition one_strip_length :: "constants \<Rightarrow> real \<Rightarrow> real" where
  "one_strip_length c f = real_of_int (one_strip_time c) * f"

text \<open>Line 172, for a non-zero strip length.\<close>

definition no_of_strips :: "nat \<Rightarrow> real \<Rightarrow> int" where
  "no_of_strips n osl = \<lceil>real n / osl\<rceil>"

text \<open>Lines 174--177, for a non-zero \<^verbatim>\<open>strips_per_page\<close>.\<close>

definition extra_strips_needed :: "constants \<Rightarrow> int \<Rightarrow> int" where
  "extra_strips_needed c n =
     (if n mod strips_per_page c \<noteq> 0
      then strips_per_page c - n mod strips_per_page c else 0)"

text \<open>Lines 180--182: the two nested loops of \<^verbatim>\<open>record.append(None)\<close>.\<close>

definition append_none :: "sample list \<Rightarrow> int \<Rightarrow> real \<Rightarrow> sample list" where
  "append_none record extra osl =
     fold (\<lambda>_ r. fold (\<lambda>_ r'. r' @ [SNone]) [0..<nat (py_int osl)] r)
          [0..<nat extra] record"

text \<open>
  What numpy makes of the float pad width \<^verbatim>\<open>one_strip_length - len(numpy_plot)\<close>:
  it rounds to the nearest integer, halves to the even one. The width is never
  negative here, a chunk being at most \<^verbatim>\<open>int(one_strip_length)\<close> long.
\<close>

definition np_round :: "real \<Rightarrow> int" where
  "np_round x =
     (let fl = \<lfloor>x\<rfloor>; fr = x - real_of_int fl
      in if fr < 1 / 2 then fl else if 1 / 2 < fr then fl + 1
         else if even fl then fl else fl + 1)"

text \<open>
  Lines 219--227: the value axis of strip \<^verbatim>\<open>num\<close> of a page, or the
  exception that numpy raises while it is built.
\<close>

definition strip_data :: "nat \<Rightarrow> sample list \<Rightarrow> real \<Rightarrow> error + sample list" where
  "strip_data num plot osl =
     (let numpy_plot = numpy_array plot
      in if num = 0 then
           case numpy_pad numpy_plot (0, 125) prepadwithnone of
             Inl e \<Rightarrow> Inl e
           | Inr data \<Rightarrow> Inr (py_slice (snd data) 0 (int (length (snd data)) - 125))
         else
           case numpy_pad numpy_plot (0, nat (np_round (osl - real (length (snd numpy_plot)))))
                  padwithnone of
             Inl e \<Rightarrow> Inl e
           | Inr data \<Rightarrow> Inr (snd data))"

text \<open>Lines 233--234: the time axis.\<close>

definition nrange :: "real \<Rightarrow> real \<Rightarrow> real \<Rightarrow> nat \<Rightarrow> real list" where
  "nrange start_time end_time f len =
     [start_time + real nu * (1 / f).
        nu \<leftarrow> [0..<len], start_time + real nu * (1 / f) \<le> end_time]"

text \<open>
  The curve renderer is the plotting library, outside the repository. Of
  \<^verbatim>\<open>ax.plot(t, data)\<close> the function observes only whether it raises
  \<^verbatim>\<open>ValueError\<close>: it does when the two axes differ in length or a value
  is neither a number nor \<^verbatim>\<open>None\<close>. The other drawing calls
  (\<^verbatim>\<open>subplot\<close>, whose row count is all that lines 189--190 feed, \<^verbatim>\<open>xlim\<close>,
  \<^verbatim>\<open>ylim\<close>, \<^verbatim>\<open>setp\<close>) are not modelled.
\<close>

fun plottable :: "sample \<Rightarrow> bool" where
  "plottable SNone = True"
| "plottable (SInt _) = True"
| "plottable (SFloat _) = True"
| "plottable (SStr _) = False"

definition ax_plot :: "real list \<Rightarrow> sample list \<Rightarrow> bool" where
  "ax_plot t data = (length t = length data \<and> list_all plottable data)"

text \<open>
  Lines 215--259: the loop over the strips of one page, from \<^verbatim>\<open>start_time\<close>
  and strip number \<^verbatim>\<open>num\<close>. \<open>strip_axes\<close> is what lines 229--235 hand to
  \<^verbatim>\<open>ax.plot\<close> for the value axis \<^verbatim>\<open>data\<close>, with the new \<^verbatim>\<open>end_time\<close>. The
  loop ends with no error when every strip is drawn, with
  \<^const>\<open>RenderingFailure\<close> in the \<^verbatim>\<open>except ValueError\<close> branch, and with the
  exception of numpy, which nothing catches.
\<close>

definition strip_axes :: "real \<Rightarrow> real \<Rightarrow> sample list \<Rightarrow> real list \<times> sample list \<times> real" where
  "strip_axes f start_time data =
     (let end_time = start_time + real (length data) / f;
          t = nrange start_time end_time f (length data)
      in (t, data, end_time))"

fun plot_strips :: "real \<Rightarrow> real \<Rightarrow> real \<Rightarrow> nat \<Rightarrow> sample list list \<Rightarrow> error option" where
  "plot_strips f osl start_time num [] = None"
| "plot_strips f osl start_time num (plot # rest) =
     (case strip_data num plot osl of
        Inl e \<Rightarrow> Some e
      | Inr data \<Rightarrow>
          (case strip_axes f start_time data of
             (t, values, end_time) \<Rightarrow>
               if ax_plot t values then plot_strips f osl end_time (num + 1) rest
               else Some RenderingFailure))"

text \<open>The variables the page loop leaves behind.\<close>

record page_loop =
  files :: "(nat \<times> string) list"
  log :: "event list"
  file_name :: "string option"

text \<open>
  Lines 195--296: the loop over the pages, from page index \<^verbatim>\<open>seq\<close>. Each
  page is chunked and drawn, saved as \<^verbatim>\<open>output_dir + str(seq+1) + '.svg'\<close>,
  rewritten with the grid, and entered in \<^verbatim>\<open>output_files\<close>.
\<close>

fun plot_pages ::
  "real \<Rightarrow> real \<Rightarrow> string \<Rightarrow> string \<Rightarrow> nat \<Rightarrow> sample list list \<Rightarrow> page_loop
     \<Rightarrow> error option \<times> page_loop" where
  "plot_pages f osl output_dir final_path seq [] st = (None, st)"
| "plot_pages f osl output_dir final_path seq (rec # rest) st =
     (case chunks rec (py_int osl) of
        Inl e \<Rightarrow> (Some e, st)
      | Inr plot_record_list \<Rightarrow>
          (case plot_strips f osl 0 0 plot_record_list of
             Some e \<Rightarrow> (Some e, st)
           | None \<Rightarrow>
               let name = output_dir @ str_nat (seq + 1) @ ''.svg''
               in plot_pages f osl output_dir final_path (seq + 1) rest
                    (st\<lparr> files := AList.update (seq + 1) final_path (files st),
                         log := log st @ [Written name, Written name],
                         file_name := Some name \<rparr>)))"

text \<open>
  Lines 160--184 for a non-zero strip length and a non-zero
  \<^verbatim>\<open>strips_per_page\<close>: \<^verbatim>\<open>no_of_strips\<close> and \<^verbatim>\<open>extra_strips_needed\<close> of a
  caller's list, the list \<^verbatim>\<open>record\<close> after the 125 leading and the trailing
  \<^verbatim>\<open>None\<close> are put in, the number of pages handed to \<^verbatim>\<open>partition\<close>, and
  the pages it returns.
\<close>

definition raw_strip_count :: "constants \<Rightarrow> real \<Rightarrow> sample list \<Rightarrow> int" where
  "raw_strip_count c f record0 =
     no_of_strips (length (prepend_none record0)) (one_strip_length c f)"

definition pad_strips :: "constants \<Rightarrow> real \<Rightarrow> sample list \<Rightarrow> int" where
  "pad_strips c f record0 = extra_strips_needed c (raw_strip_count c f record0)"

definition padded_record :: "constants \<Rightarrow> real \<Rightarrow> sample list \<Rightarrow> sample list" where
  "padded_record c f record0 =
     append_none (prepend_none record0) (pad_strips c f record0) (one_strip_length c f)"

definition page_count :: "constants \<Rightarrow> real \<Rightarrow> sample list \<Rightarrow> int" where
  "page_count c f record0 =
     py_int (real_of_int (raw_strip_count c f record0 + pad_strips c f record0)
               / real_of_int (strips_per_page c))"

definition record_pages :: "constants \<Rightarrow> real \<Rightarrow> sample list \<Rightarrow> error + sample list list" where
  "record_pages c f record0 = partition (padded_record c f record0) (page_count c f record0)"

text \<open>
  Lines 160--354, once \<^verbatim>\<open>record\<close> is a list. \<^verbatim>\<open>alias\<close> says whether that
  list is the caller's own object (line 151) or one read from a file.
\<close>

definition finish :: "bool \<Rightarrow> pyval \<Rightarrow> error + meta_data \<Rightarrow> sample list \<Rightarrow> event list \<Rightarrow> outcome" where
  "finish alias ecg_data r record evs =
     \<lparr> returned = r,
       ecg_data_after = (if alias then PyList record else ecg_data),
       effects = evs \<rparr>"

definition plot_record ::
  "constants \<Rightarrow> bool \<Rightarrow> pyval \<Rightarrow> sample list \<Rightarrow> string \<Rightarrow> string \<Rightarrow> string
     \<Rightarrow> (string \<times> display) list \<Rightarrow> real \<Rightarrow> outcome" where
  "plot_record c alias ecg_data record0 output_dir output_file_name export_to meta f =
     (let record1 = prepend_none record0;
          n_signals = length record1;
          osl = one_strip_length c f
      in if osl = 0 \<or> strips_per_page c = 0 then
           finish alias ecg_data (Inl ZeroDivisionError) record1 []
         else
           let record2 = padded_record c f record0
           in case record_pages c f record0 of
                Inl e \<Rightarrow> finish alias ecg_data (Inl e) record2 []
              | Inr record_list \<Rightarrow>
                  let r_time = py_round (real_of_int (int n_signals - 125) / f);
                      final_path = output_dir @ output_file_name @ ''.'' @ export_to
                  in case plot_pages f osl output_dir final_path 0 record_list
                            \<lparr> files = [], log = [], file_name = None \<rparr> of
                       (Some e, st) \<Rightarrow> finish alias ecg_data (Inl e) record2 (log st)
                     | (None, st) \<Rightarrow>
                         (case file_name st of
                            None \<Rightarrow> finish alias ecg_data (Inl UnboundLocalError) record2 (log st)
                          | Some name \<Rightarrow>
                              finish alias ecg_data
                                (Inr \<lparr> record_frequency = f,
                                       scale = plot_scale c,
                                       signals_num = n_signals,
                                       record_time = r_time,
                                       output_files = files st,
                                       display_information =
                                         dict_update
                                           [(''Record frequency'', Float_text f '' Hz''),
                                            (''Scale'', Text (plot_scale c)),
                                            (''No. of signals'', Number n_signals),
                                            (''Duration'', Text (str_int r_time @ '' seconds''))]
                                           meta \<rparr>)
                                record2
                                (log st @
                                 [Written (output_dir @ ''graph_page.svg''),
                                  Written (output_dir @ ''/temp2.js''),
                                  Called_phantomjs (output_dir @ ''/temp2.js''),
                                  Removed name,
                                  Removed (output_dir @ ''graph_page.svg''),
                                  Removed (output_dir @ ''/temp2.js'')])))"

text \<open>
  \<^verbatim>\<open>generate_ecg_graph(ecg_data, output_dir, output_file_name, export_to, meta,
  record_frequency=...)\<close>, lines 140--158 and then the body above. The
  constants and the file system are made arguments; the keyword argument is
  \<^verbatim>\<open>None\<close> when the caller leaves it out (line 146). The rate is a float,
  as the default 250.0 and the docstring have it; with a Python 2 integer
  the divisions of lines 186, 230 and 233 would be integer divisions.
  Lines 150--153 resolve \<^verbatim>\<open>ecg_data\<close> to the record: itself when it is a
  list, what \<^verbatim>\<open>get_ecg_data\<close> reads otherwise.
\<close>

definition frequency :: "constants \<Rightarrow> real option \<Rightarrow> real" where
  "frequency c kw = (case kw of None \<Rightarrow> default_frequency c | Some x \<Rightarrow> x)"

definition resolve :: "(string \<Rightarrow> file_read) \<Rightarrow> pyval \<Rightarrow> error + pyval" where
  "resolve fs ecg_data =
     (case ecg_data of PyList _ \<Rightarrow> Inr ecg_data | _ \<Rightarrow> get_ecg_data fs ecg_data)"

definition generate_ecg_graph ::
  "constants \<Rightarrow> (string \<Rightarrow> file_read) \<Rightarrow> pyval \<Rightarrow> string \<Rightarrow> string \<Rightarrow> string
     \<Rightarrow> (string \<times> display) list \<Rightarrow> real option \<Rightarrow> outcome" where
  "generate_ecg_graph c fs ecg_data output_dir output_file_name export_to meta kw =
     (if export_to \<notin> set [''pdf'', ''jpg'', ''png''] then
        \<lparr> returned = Inl UnsupportedExport, ecg_data_after = ecg_data, effects = [] \<rparr>
      else
        case resolve fs ecg_data of
          Inl e \<Rightarrow> \<lparr> returned = Inl e, ecg_data_after = ecg_data, effects = [] \<rparr>
        | Inr (PyList record0) \<Rightarrow>
            plot_record c (case ecg_data of PyList _ \<Rightarrow> True | _ \<Rightarrow> False) ecg_data record0
              output_dir output_file_name export_to meta (frequency c kw)
        | Inr _ \<Rightarrow>
            \<lparr> returned = Inl InvalidRecord, ecg_data_after = ecg_data, effects = [] \<rparr>)"

subsection \<open>The pages and strips of a run\<close>

text \<open>
  The strips of every page as the two loops meet them: \<^verbatim>\<open>record_list\<close>
  from \<^verbatim>\<open>partition\<close>, and for each page the chunks that
  \<^verbatim>\<open>chunks(rec, int(one_strip_length))\<close> yields.
\<close>

fun all_chunks :: "'a list list \<Rightarrow> int \<Rightarrow> error + 'a list list list" where
  "all_chunks [] n = Inr []"
| "all_chunks (rec # rest) n =
     (case chunks rec n of
        Inl e \<Rightarrow> Inl e
      | Inr plot_record_list \<Rightarrow>
          (case all_chunks rest n of
             Inl e \<Rightarrow> Inl e
           | Inr others \<Rightarrow> Inr (plot_record_list # others)))"

definition page_strips :: "constants \<Rightarrow> real \<Rightarrow> sample list \<Rightarrow> error + sample list list list" where
  "page_strips c f record0 =
     (case record_pages c f record0 of
        Inl e \<Rightarrow> Inl e
      | Inr record_list \<Rightarrow> all_chunks record_list (py_int (one_strip_length c f)))"




definition no_files :: "string \<Rightarrow> file_read" where
  "no_files path = Unreadable"

section \<open>Properties\<close>

subsection \<open>Lists, slices and chunks\<close>

lemma fold_cons_replicate: "fold (\<lambda>_ r. x # r) xs r = replicate (length xs) x @ r"
  by (induction xs arbitrary: r) (simp_all add: replicate_app_Cons_same)

lemma prepend_none_eq: "prepend_none r = replicate 125 SNone @ r"
  unfolding prepend_none_def by (simp only: fold_cons_replicate length_upt diff_zero)

lemma fold_snoc_replicate: "fold (\<lambda>_ r. r @ replicate k x) xs r = r @ replicate (length xs * k) x"
  by (induction xs arbitrary: r) (simp_all add: replicate_add)

lemma fold_snoc_one: "fold (\<lambda>_ r. r @ [x]) xs r = r @ replicate (length xs) x"
  using fold_snoc_replicate [of 1 x xs r] by simp

lemma fold_snoc_fun: "fold (\<lambda>_ r. r @ [x]) xs = (\<lambda>r. r @ replicate (length xs) x)"
  by (rule ext) (rule fold_snoc_one)

lemma append_none_eq:
  "append_none r extra osl = r @ replicate (nat extra * nat (py_int osl)) SNone"
  unfolding append_none_def by (simp add: fold_snoc_fun fold_snoc_replicate)

lemma slice_index_int: "slice_index len (int k) = min k len"
  by (simp add: slice_index_def)

lemma py_slice_nat:
  "py_slice l (int a) (int b) =
     take (min b (length l) - min a (length l)) (drop (min a (length l)) l)"
  by (simp add: py_slice_def slice_index_int Let_def)

lemma py_slice_inside:
  "a < length l \<Longrightarrow> py_slice l (int a) (int (a + n)) = take n (drop a l)"
  by (simp only: py_slice_nat) (simp add: min_def)

lemma chunks_from_concat: "0 < n \<Longrightarrow> concat (chunks_from i l n) = drop i l"
proof (induction i l n rule: chunks_from.induct)
  case (1 i l n)
  show ?case
  proof (cases "length l \<le> i")
    case True
    then show ?thesis by (subst chunks_from.simps) simp
  next
    case False
    then have lt: "i < length l" by simp
    have ih: "concat (chunks_from (i + n) l n) = drop (i + n) l"
      using 1 False by simp
    have "concat (chunks_from i l n) = take n (drop i l) @ drop (i + n) l"
      using False 1(2) ih py_slice_inside [OF lt, of n]
      by (subst chunks_from.simps) simp
    also have "\<dots> = drop i l"
      by (metis add.commute append_take_drop_id drop_drop)
    finally show ?thesis .
  qed
qed

lemma take_slice_append:
  "a \<le> b \<Longrightarrow> take a l @ py_slice l (int a) (int b) = take b l"
proof -
  assume ab: "a \<le> b"
  show ?thesis
  proof (cases "a \<le> length l")
    case True
    then have "py_slice l (int a) (int b) = take (b - a) (drop a l)"
      using ab by (simp add: py_slice_nat min_def)
    then show ?thesis
      using ab by (metis le_add_diff_inverse take_add)
  next
    case False
    then show ?thesis using ab by (simp add: py_slice_nat)
  qed
qed


lemma py_round_nonneg: "0 \<le> x \<Longrightarrow> py_round x = \<lfloor>x + 1 / 2\<rfloor>"
  by (simp add: py_round_def)

lemma py_round_ge0: "0 \<le> x \<Longrightarrow> 0 \<le> py_round x"
  by (simp add: py_round_def)

lemma py_round_mono: "0 \<le> x \<Longrightarrow> x \<le> y \<Longrightarrow> py_round x \<le> py_round y"
  by (simp add: py_round_def floor_mono)

lemma py_round_of_nat: "py_round (real k) = int k"
proof -
  have "\<lfloor>real k + 1 / 2\<rfloor> = int k" by linarith
  then show ?thesis by (simp add: py_round_def)
qed

lemma slices_concat:
  assumes "\<And>i. 0 \<le> b i" and "\<And>i. b i \<le> b (Suc i)" and "b 0 = 0"
  shows "concat (map (\<lambda>i. py_slice lst (b i) (b (i + 1))) [0..<k]) = take (nat (b k)) lst"
proof (induction k)
  case 0
  then show ?case using assms(3) by simp
next
  case (Suc k)
  have le: "nat (b k) \<le> nat (b (Suc k))" using assms(2) [of k] by simp
  have "py_slice lst (b k) (b (Suc k)) = py_slice lst (int (nat (b k))) (int (nat (b (Suc k))))"
    using assms(1) by simp
  then show ?case
    using Suc take_slice_append [OF le, of lst] by simp
qed

lemma partition_concat:
  assumes "0 < n"
  shows "\<exists>ps. partition lst n = Inr ps \<and> concat ps = lst \<and> length ps = nat n"
proof -
  define d where "d = real (length lst) / real_of_int n"
  define b where "b i = py_round (d * real i)" for i
  have d0: "0 \<le> d" using assms by (simp add: d_def)
  have b0: "\<And>i. 0 \<le> b i" using d0 by (simp add: b_def py_round_ge0)
  have bm: "\<And>i. b i \<le> b (Suc i)"
    unfolding b_def using d0 by (intro py_round_mono) (simp_all add: mult_left_mono)
  have bz: "b 0 = 0" using py_round_of_nat [of 0] by (simp add: b_def)
  have "d * real (nat n) = real (length lst)"
    using assms by (simp add: d_def)
  then have bn: "b (nat n) = int (length lst)"
    by (simp add: b_def py_round_of_nat)
  have p: "partition lst n = Inr (map (\<lambda>i. py_slice lst (b i) (b (i + 1))) [0..<nat n])"
    using assms by (simp add: partition_def d_def b_def Let_def)
  have "concat (map (\<lambda>i. py_slice lst (b i) (b (i + 1))) [0..<nat n]) = lst"
    using slices_concat [of b lst "nat n", OF b0 bm bz] bn by simp
  then show ?thesis using p by simp
qed


subsection \<open>Layout arithmetic\<close>

lemma extra_bounds:
  assumes "0 < strips_per_page c"
  shows "0 \<le> extra_strips_needed c n \<and> extra_strips_needed c n < strips_per_page c"
proof -
  have "0 \<le> n mod strips_per_page c" "n mod strips_per_page c < strips_per_page c"
    using assms by simp_all
  then show ?thesis by (simp add: extra_strips_needed_def)
qed

lemma extra_total:
  assumes "0 < strips_per_page c"
  shows "(n + extra_strips_needed c n) mod strips_per_page c = 0"
proof (cases "n mod strips_per_page c = 0")
  case True
  then show ?thesis by (simp add: extra_strips_needed_def)
next
  case False
  define s where "s = strips_per_page c"
  have "n + (s - n mod s) = s * (n div s + 1)"
    by (simp add: distrib_left minus_mod_eq_mult_div)
  then have "(n + (s - n mod s)) mod s = 0" by simp
  then show ?thesis using False by (simp add: extra_strips_needed_def s_def)
qed

lemma extra_formula:
  assumes "0 < strips_per_page c"
  shows "extra_strips_needed c n =
           (strips_per_page c - n mod strips_per_page c) mod strips_per_page c"
proof (cases "n mod strips_per_page c = 0")
  case True
  then show ?thesis by (simp add: extra_strips_needed_def)
next
  case False
  have "0 \<le> n mod strips_per_page c" "n mod strips_per_page c < strips_per_page c"
    using assms by simp_all
  with False have "0 \<le> strips_per_page c - n mod strips_per_page c"
    "strips_per_page c - n mod strips_per_page c < strips_per_page c" by simp_all
  then have "(strips_per_page c - n mod strips_per_page c) mod strips_per_page c
               = strips_per_page c - n mod strips_per_page c"
    by (rule mod_pos_pos_trivial)
  then show ?thesis using False by (simp only: extra_strips_needed_def simp_thms if_True)
qed

lemma py_int_exact: "s \<noteq> 0 \<Longrightarrow> py_int (real_of_int (s * q) / real_of_int s) = q"
  by (simp add: py_int_def)

lemma no_of_strips_pos: "0 < n \<Longrightarrow> 0 < osl \<Longrightarrow> 1 \<le> no_of_strips n osl"
  by (simp add: no_of_strips_def)


lemma length_prepend_none: "length (prepend_none r) = length r + 125"
  by (simp add: prepend_none_eq)

lemma raw_strip_count_pos:
  "0 < one_strip_length c f \<Longrightarrow> 1 \<le> raw_strip_count c f r"
  by (simp add: raw_strip_count_def length_prepend_none no_of_strips_pos)

lemma pages_times_spp:
  assumes "0 < strips_per_page c"
  shows "strips_per_page c * page_count c f r = raw_strip_count c f r + pad_strips c f r"
proof -
  define t where "t = raw_strip_count c f r + pad_strips c f r"
  have "t mod strips_per_page c = 0"
    using extra_total [OF assms] by (simp add: t_def pad_strips_def)
  then have t: "t = strips_per_page c * (t div strips_per_page c)" by auto
  have "page_count c f r = py_int (real_of_int t / real_of_int (strips_per_page c))"
    by (simp add: page_count_def t_def)
  also have "\<dots> = t div strips_per_page c"
    using py_int_exact [of "strips_per_page c" "t div strips_per_page c"] assms t by simp
  finally show ?thesis using t by (simp add: t_def)
qed

lemma page_count_pos:
  assumes "0 < strips_per_page c" and "0 < one_strip_length c f"
  shows "1 \<le> page_count c f r"
proof -
  have "0 < raw_strip_count c f r + pad_strips c f r"
    using raw_strip_count_pos [OF assms(2), of r] extra_bounds [OF assms(1)]
    by (simp add: pad_strips_def add_pos_nonneg)
  then have "0 < strips_per_page c * page_count c f r"
    by (simp add: pages_times_spp [OF assms(1)])
  then have "0 < page_count c f r"
    using assms(1) by (simp add: zero_less_mult_iff)
  then show ?thesis by simp
qed

lemma py_int_pos: "1 \<le> x \<Longrightarrow> 1 \<le> py_int x"
  by (simp add: py_int_def le_floor_iff)

lemma all_chunks_concat:
  "0 < n \<Longrightarrow> \<exists>css. all_chunks recs n = Inr css \<and> map concat css = recs"
proof (induction recs)
  case Nil
  then show ?case by simp
next
  case (Cons rec recs)
  then obtain css where css: "all_chunks recs n = Inr css" "map concat css = recs" by auto
  have "chunks rec n = Inr (chunks_from 0 rec (nat n))"
    using Cons.prems by (simp add: chunks_def)
  moreover have "concat (chunks_from 0 rec (nat n)) = rec"
    using Cons.prems chunks_from_concat [of "nat n" 0 rec] by simp
  ultimately show ?case using css by simp
qed

lemma concat_concat: "concat (concat xss) = concat (map concat xss)"
  by (induction xss) simp_all

lemma padded_record_eq:
  "padded_record c f r =
     replicate 125 SNone @ r @
     replicate (nat (pad_strips c f r) * nat (py_int (one_strip_length c f))) SNone"
  by (simp add: padded_record_def append_none_eq prepend_none_eq)

text \<open>
  Claim C1. With a strip of at least one sample and a positive
  \<^verbatim>\<open>strips_per_page\<close>, every trace is partitioned and chunked without error,
  and the strips of all pages, concatenated in order, are the padded trace:
  125 \<^verbatim>\<open>None\<close>, the caller's samples in their order, and the appended
  trailing \<^verbatim>\<open>None\<close>. A strip here is a chunk as \<^verbatim>\<open>chunks\<close> yields it, before
  numpy pads it for drawing.
\<close>

theorem strips_concat_padded_trace:
  assumes "1 \<le> one_strip_length c f" and "0 < strips_per_page c"
  shows "\<exists>pages. page_strips c f ecg = Inr pages \<and>
           concat (concat pages) = padded_record c f ecg \<and>
           padded_record c f ecg =
             replicate 125 SNone @ ecg @
             replicate (nat (pad_strips c f ecg) * nat (py_int (one_strip_length c f))) SNone"
proof -
  have pos: "0 < one_strip_length c f" using assms(1) by simp
  obtain ps where ps: "record_pages c f ecg = Inr ps" "concat ps = padded_record c f ecg"
    using partition_concat [of "page_count c f ecg" "padded_record c f ecg"]
      page_count_pos [OF assms(2) pos, of ecg]
    by (auto simp: record_pages_def)
  have "0 < py_int (one_strip_length c f)" using py_int_pos [OF assms(1)] by simp
  then obtain css where css: "all_chunks ps (py_int (one_strip_length c f)) = Inr css"
      "map concat css = ps"
    using all_chunks_concat by blast
  have "page_strips c f ecg = Inr css" using ps css by (simp add: page_strips_def)
  moreover have "concat (concat css) = concat ps" using css(2) by (simp add: concat_concat)
  ultimately show ?thesis using ps padded_record_eq by simp
qed


lemma source_layout [simp]:
  "one_strip_length source_constants f = 8 * f"
  "strips_per_page source_constants = 4"
  by (simp_all add: one_strip_length_def source_constants_def)

theorem strips_concat_padded_trace_witness:
  "1 \<le> one_strip_length source_constants 250 \<and> 0 < strips_per_page source_constants \<and>
   (\<exists>pages. page_strips source_constants 250 [SInt 1, SInt 2] = Inr pages \<and>
      concat (concat pages) = padded_record source_constants 250 [SInt 1, SInt 2] \<and>
      padded_record source_constants 250 [SInt 1, SInt 2] =
        replicate 125 SNone @ [SInt 1, SInt 2] @ replicate 6000 SNone)"
proof -
  have h1: "1 \<le> one_strip_length source_constants 250" by simp
  have h2: "0 < strips_per_page source_constants" by simp
  have n: "nat (pad_strips source_constants 250 [SInt 1, SInt 2])
             * nat (py_int (one_strip_length source_constants 250)) = 6000"
    by (simp add: pad_strips_def raw_strip_count_def length_prepend_none no_of_strips_def
          extra_strips_needed_def py_int_def)
  show ?thesis
    using strips_concat_padded_trace [OF h1 h2, of "[SInt 1, SInt 2]"] h1 h2
    by (simp only: n)
qed

subsection \<open>Padding strips\<close>

lemma raw_strip_count_exact:
  assumes "real (length ecg + 125) = real k * (one_strip_length c f * real_of_int (strips_per_page c))"
  shows "raw_strip_count c f ecg = int k * strips_per_page c"
proof -
  have nz: "one_strip_length c f \<noteq> 0"
  proof
    assume "one_strip_length c f = 0"
    with assms have "real (length ecg + 125) = 0" by simp
    then show False by simp
  qed
  have "real (length ecg + 125) / one_strip_length c f = real_of_int (int k * strips_per_page c)"
    using assms nz by (simp add: field_simps)
  then show ?thesis
    by (simp only: raw_strip_count_def no_of_strips_def length_prepend_none ceiling_of_int)
qed

text \<open>
  Claim C2 as stated fails at its boundary. At 250.0625 Hz the strip length
  \<^verbatim>\<open>one_strip_length\<close> is 2000.5, which rounds up to 2001. A trace of 7879
  samples has 8004 after the 125 prepended markers, which is 2001 times the 4
  strips of a page; yet line 172 counts 5 strips, the ceiling of
  8004 / 2000.5, and three padding strips are added.
\<close>

theorem padding_strip_counterexample:
  "int (length (prepend_none (replicate 7879 (SFloat 1)))) =
     1 * (\<lceil>one_strip_length source_constants (4001 / 16)\<rceil> * strips_per_page source_constants) \<and>
   raw_strip_count source_constants (4001 / 16) (replicate 7879 (SFloat 1)) = 5 \<and>
   pad_strips source_constants (4001 / 16) (replicate 7879 (SFloat 1)) = 3"
proof -
  have c: "\<lceil>(4001 :: real) / 2\<rceil> = 2001" by simp
  have "(16008 :: real) / 4001 = 4 + 4 / 4001" by simp
  then have "\<lceil>(16008 :: real) / 4001\<rceil> = \<lceil>4 + (4 :: real) / 4001\<rceil>" by simp
  also have "\<dots> = 5" by (simp add: ceiling_eq_iff)
  finally have r: "\<lceil>(16008 :: real) / 4001\<rceil> = 5" .
  have raw: "raw_strip_count source_constants (4001 / 16) (replicate 7879 (SFloat 1)) = 5"
    by (simp add: raw_strip_count_def length_prepend_none no_of_strips_def r)
  have pad: "pad_strips source_constants (4001 / 16) (replicate 7879 (SFloat 1)) = 3"
    by (simp add: pad_strips_def raw extra_strips_needed_def)
  show ?thesis
    by (simp add: raw pad length_prepend_none c)
qed

text \<open>
  Claim C2, amended. For every trace the number of padding strips is
  \<open>(strips_per_page - raw_strip_count mod strips_per_page) mod strips_per_page\<close>,
  so the total strip count is a multiple of \<^verbatim>\<open>strips_per_page\<close> and the page
  count is its exact quotient; the list grows by that many strips of
  \<^verbatim>\<open>int(one_strip_length)\<close> markers; and when the length after the 125
  prepended markers is a whole multiple of
  \<^verbatim>\<open>one_strip_length * strips_per_page\<close>, the product of the strip duration
  and the sampling rate as it is, not rounded up, no padding strip is added.
\<close>

theorem padding_strip_count:
  assumes "0 < strips_per_page c"
  shows "pad_strips c f ecg =
           (strips_per_page c - raw_strip_count c f ecg mod strips_per_page c)
             mod strips_per_page c \<and>
         (raw_strip_count c f ecg + pad_strips c f ecg) mod strips_per_page c = 0 \<and>
         strips_per_page c * page_count c f ecg =
           raw_strip_count c f ecg + pad_strips c f ecg \<and>
         length (padded_record c f ecg) =
           length ecg + 125 + nat (pad_strips c f ecg) * nat (py_int (one_strip_length c f)) \<and>
         (\<forall>k. real (length ecg + 125) =
                real k * (one_strip_length c f * real_of_int (strips_per_page c))
              \<longrightarrow> pad_strips c f ecg = 0 \<and> padded_record c f ecg = prepend_none ecg)"
proof (intro conjI allI impI)
  show "pad_strips c f ecg =
          (strips_per_page c - raw_strip_count c f ecg mod strips_per_page c)
            mod strips_per_page c"
    unfolding pad_strips_def by (rule extra_formula [OF assms])
  show "(raw_strip_count c f ecg + pad_strips c f ecg) mod strips_per_page c = 0"
    unfolding pad_strips_def by (rule extra_total [OF assms])
  show "strips_per_page c * page_count c f ecg = raw_strip_count c f ecg + pad_strips c f ecg"
    by (rule pages_times_spp [OF assms])
  show "length (padded_record c f ecg) =
          length ecg + 125 + nat (pad_strips c f ecg) * nat (py_int (one_strip_length c f))"
    by (simp add: padded_record_eq)
next
  fix k
  assume k: "real (length ecg + 125) =
               real k * (one_strip_length c f * real_of_int (strips_per_page c))"
  have "raw_strip_count c f ecg mod strips_per_page c = 0"
    by (simp add: raw_strip_count_exact [OF k])
  then show z: "pad_strips c f ecg = 0"
    by (simp add: pad_strips_def extra_strips_needed_def)
  show "padded_record c f ecg = prepend_none ecg"
    by (simp add: padded_record_eq z prepend_none_eq)
qed

theorem padding_strip_count_witness:
  "0 < strips_per_page source_constants \<and>
   real (length (replicate 7875 (SFloat 0)) + 125) =
     real 1 * (one_strip_length source_constants 250 * real_of_int (strips_per_page source_constants)) \<and>
   pad_strips source_constants 250 (replicate 7875 (SFloat 0)) = 0 \<and>
   (raw_strip_count source_constants 250 (replicate 7875 (SFloat 0))
      + pad_strips source_constants 250 (replicate 7875 (SFloat 0)))
     mod strips_per_page source_constants = 0"
proof -
  have h: "0 < strips_per_page source_constants" by simp
  have k: "real (length (replicate 7875 (SFloat 0)) + 125) =
     real 1 * (one_strip_length source_constants 250 * real_of_int (strips_per_page source_constants))"
    by simp
  show ?thesis
    using padding_strip_count [OF h, of 250 "replicate 7875 (SFloat 0)"] h k by blast
qed

subsection \<open>The two axes of a strip\<close>

lemma comprehension_all:
  "(\<And>x. x \<in> set xs \<Longrightarrow> P x) \<Longrightarrow> [e x. x \<leftarrow> xs, P x] = map e xs"
  by (induction xs) simp_all

lemma nrange_length:
  assumes "0 < f"
  shows "length (nrange s (s + real n / f) f n) = n"
proof -
  have "\<And>nu. nu \<in> set [0..<n] \<Longrightarrow> s + real nu * (1 / f) \<le> s + real n / f"
    using assms by (simp add: divide_right_mono)
  then have "nrange s (s + real n / f) f n = map (\<lambda>nu. s + real nu * (1 / f)) [0..<n]"
    unfolding nrange_def by (rule comprehension_all)
  then show ?thesis by simp
qed

lemma strip_axes_lengths:
  assumes "0 < f"
  shows "length (fst (strip_axes f s data)) = length (fst (snd (strip_axes f s data)))"
  by (simp add: strip_axes_def Let_def nrange_length [OF assms])

subsection \<open>What numpy makes of a chunk\<close>

lemma np_round_of_int: "np_round (real_of_int k) = k"
  by (simp add: np_round_def)

lemma array_dtype_no_int: "\<not> list_ex is_int plot \<Longrightarrow> array_dtype plot \<noteq> Int_dtype"
proof -
  assume n: "\<not> list_ex is_int plot"
  have k: "is_none x \<or> is_int x \<or> is_float x \<or> is_str x" for x by (cases x) simp_all
  show ?thesis
  proof (cases plot)
    case Nil
    then show ?thesis by (simp add: array_dtype_def)
  next
    case (Cons x xs)
    then show ?thesis using n k [of x] by (auto simp: array_dtype_def)
  qed
qed


lemma set_slice_none_nat:
  "set_slice_none v (int a) (int b) =
     take (min a (length v)) v @
     replicate (min b (length v) - min a (length v)) SNone @
     drop (max (min a (length v)) (min b (length v))) v"
  by (simp add: set_slice_none_def slice_index_int Let_def)

lemma strip_data_first:
  "strip_data 0 plot osl =
     (if array_dtype plot = Int_dtype then Inl TypeError
      else Inr (replicate (min 125 (length plot)) SNone @ drop 125 plot))"
proof -
  define v where "v = plot @ replicate 125 (SInt 0)"
  define dt where "dt = array_dtype plot"
  have lv: "length v = length plot + 125" by (simp add: v_def)
  have si: "slice_index (length v) 0 = 0" "slice_index (length v) 125 = 125"
    by (simp_all add: slice_index_def lv)
  have pad: "numpy_pad (numpy_array plot) (0, 125) prepadwithnone = assign_none (dt, v) 0 125"
    by (simp add: numpy_pad_def numpy_array_def prepadwithnone_def v_def dt_def)
  show ?thesis
  proof (cases "dt = Int_dtype")
    case True
    have "assign_none (dt, v) 0 125 = Inl TypeError"
      unfolding assign_none_def Let_def snd_conv fst_conv si using True by simp
    then show ?thesis using True by (simp add: strip_data_def Let_def pad dt_def)
  next
    case False
    have sn: "set_slice_none v 0 125 = replicate 125 SNone @ drop 125 v"
      using set_slice_none_nat [of v 0 125] by (simp add: lv)
    have an: "assign_none (dt, v) 0 125 = Inr (dt, replicate 125 SNone @ drop 125 v)"
      unfolding assign_none_def Let_def snd_conv fst_conv si sn using False by simp
    have lp: "length (replicate 125 SNone @ drop 125 v) = length plot + 125"
      by (simp add: lv)
    have "py_slice (replicate 125 SNone @ drop 125 v) (int 0) (int (length plot))
            = take (length plot) (replicate 125 SNone @ drop 125 v)"
      by (simp only: py_slice_nat lp) simp
    also have "\<dots> = replicate (min 125 (length plot)) SNone @ drop 125 plot"
      by (simp add: v_def min_def)
    finally have sl: "py_slice (replicate 125 SNone @ drop 125 v) (int 0) (int (length plot))
            = replicate (min 125 (length plot)) SNone @ drop 125 plot" .
    have "strip_data 0 plot osl =
            Inr (py_slice (replicate 125 SNone @ drop 125 v) (int 0) (int (length plot)))"
      by (simp add: strip_data_def Let_def pad an lp lv del: replicate.simps)
    then show ?thesis using False sl by (simp add: dt_def)
  qed
qed

lemma strip_data_later:
  assumes "0 < num"
  shows "strip_data num plot osl =
           (if array_dtype plot = Int_dtype \<and> 0 < nat (np_round (osl - real (length plot)))
            then Inl TypeError
            else Inr (plot @ replicate (nat (np_round (osl - real (length plot)))) SNone))"
proof -
  define w where "w = nat (np_round (osl - real (length plot)))"
  define v where "v = plot @ replicate w (SInt 0)"
  define dt where "dt = array_dtype plot"
  have lv: "length v = length plot + w" by (simp add: v_def)
  have pad: "numpy_pad (numpy_array plot) (0, w) padwithnone = padwithnone (dt, v) (0, w)"
    by (simp add: numpy_pad_def numpy_array_def v_def dt_def)
  have sd: "strip_data num plot osl =
              (case padwithnone (dt, v) (0, w) of Inl e \<Rightarrow> Inl e | Inr data \<Rightarrow> Inr (snd data))"
    using assms pad by (simp add: strip_data_def Let_def w_def numpy_array_def)
  show ?thesis
  proof (cases "w = 0")
    case True
    then have "padwithnone (dt, v) (0, w) = Inr (dt, plot)"
      by (simp add: padwithnone_def v_def)
    then show ?thesis using True by (simp add: sd flip: w_def)
  next
    case False
    have a: "assign_none (dt, v) 0 0 = Inr (dt, v)"
      by (simp add: assign_none_def set_slice_none_def slice_index_def Let_def)
    have lo: "slice_index (length v) (- int w) = length plot"
      using False by (simp add: slice_index_def lv)
    have hi: "slice_index (length v) (int (length v)) = length v"
      by (simp add: slice_index_int)
    have sn: "set_slice_none v (- int w) (int (length v)) = plot @ replicate w SNone"
      unfolding set_slice_none_def Let_def lo hi by (simp add: lv) (simp add: v_def)
    have b: "assign_none (dt, v) (- int w) (int (length v)) =
               (if dt = Int_dtype then Inl TypeError else Inr (dt, plot @ replicate w SNone))"
      unfolding assign_none_def Let_def snd_conv fst_conv lo hi sn using False by (simp add: lv)
    have "padwithnone (dt, v) (0, w) =
            (if dt = Int_dtype then Inl TypeError else Inr (dt, plot @ replicate w SNone))"
      using False by (simp add: padwithnone_def a b)
    then show ?thesis using False by (simp add: sd flip: w_def dt_def)
  qed
qed

lemma strip_data_error: "strip_data num plot osl = Inl e \<Longrightarrow> e = TypeError"
  by (cases "num = 0") (auto simp: strip_data_first strip_data_later split: if_splits)

lemma strip_data_ok:
  "array_dtype plot \<noteq> Int_dtype \<Longrightarrow> \<exists>data. strip_data num plot osl = Inr data"
  by (cases "num = 0") (simp_all add: strip_data_first strip_data_later)

lemma strip_data_plottable:
  assumes "strip_data num plot osl = Inr data" and "list_all plottable plot"
  shows "list_all plottable data"
proof -
  have d: "list_all plottable (drop 125 plot)"
    using assms(2) set_drop_subset [of 125 plot] by (auto simp: list_all_iff)
  show ?thesis
  proof (cases "num = 0")
    case True
    then show ?thesis using assms d by (auto simp: strip_data_first list_all_iff split: if_splits)
  next
    case False
    then show ?thesis using assms by (auto simp: strip_data_later list_all_iff split: if_splits)
  qed
qed

text \<open>
  A chunk of Python \<^verbatim>\<open>int\<close> only: numpy raises as the first strip of a page,
  and as a later strip when it is shorter than the strip length; a float in
  the chunk, or a \<^verbatim>\<open>None\<close>, and the value axis is built.
\<close>

lemma strip_data_int_chunk:
  "strip_data 0 [SInt 1, SInt 2] 2000 = Inl TypeError"
  "strip_data 3 [SInt 1, SInt 2] 2000 = Inl TypeError"
  "strip_data 3 [SInt 1, SFloat 2] 2000 = Inr ([SInt 1, SFloat 2] @ replicate 1998 SNone)"
  "strip_data 0 [SInt 1, SNone] 2000 = Inr [SNone, SNone]"
proof -
  have r: "np_round 1998 = 1998"
    using np_round_of_int [of 1998] by simp
  show "strip_data 0 [SInt 1, SInt 2] 2000 = Inl TypeError"
    by (simp add: strip_data_first array_dtype_def)
  show "strip_data 3 [SInt 1, SInt 2] 2000 = Inl TypeError"
    by (simp add: strip_data_later array_dtype_def r)
  show "strip_data 3 [SInt 1, SFloat 2] 2000 = Inr ([SInt 1, SFloat 2] @ replicate 1998 SNone)"
    by (simp add: strip_data_later array_dtype_def r)
  show "strip_data 0 [SInt 1, SNone] 2000 = Inr [SNone, SNone]"
    by (simp add: strip_data_first array_dtype_def)
qed

lemma plot_strips_no_failure:
  assumes "0 < f"
  shows "(\<And>plot. plot \<in> set plots \<Longrightarrow> list_all plottable plot) \<Longrightarrow>
           plot_strips f osl s num plots \<noteq> Some RenderingFailure"
proof (induction plots arbitrary: s num)
  case Nil
  then show ?case by simp
next
  case (Cons plot plots)
  show ?case
  proof (cases "strip_data num plot osl")
    case (Inl e)
    then show ?thesis using strip_data_error [OF Inl] by simp
  next
    case (Inr data)
    have "list_all plottable data"
      using strip_data_plottable [OF Inr] Cons.prems by simp
    then have "ax_plot (fst (strip_axes f s data)) data"
      using strip_axes_lengths [OF assms, of s data]
      by (simp add: ax_plot_def strip_axes_def Let_def)
    then show ?thesis using Cons Inr by (simp add: strip_axes_def Let_def)
  qed
qed

lemma plot_strips_plottable:
  assumes "0 < f"
  shows "(\<And>plot. plot \<in> set plots \<Longrightarrow> list_all plottable plot \<and> array_dtype plot \<noteq> Int_dtype) \<Longrightarrow>
           plot_strips f osl s num plots = None"
proof (induction plots arbitrary: s num)
  case Nil
  then show ?case by simp
next
  case (Cons plot plots)
  obtain data where data: "strip_data num plot osl = Inr data"
    using strip_data_ok [of plot num osl] Cons.prems by auto
  have "list_all plottable data"
    using strip_data_plottable [OF data] Cons.prems by simp
  then have "ax_plot (fst (strip_axes f s data)) data"
    using strip_axes_lengths [OF assms, of s data]
    by (simp add: ax_plot_def strip_axes_def Let_def)
  then show ?case using Cons data by (simp add: strip_axes_def Let_def)
qed

lemma set_slice_none_subset: "set (set_slice_none v a b) \<subseteq> insert SNone (set v)"
proof -
  have "set (take n v) \<subseteq> set v" "set (drop m v) \<subseteq> set v" for n m
    by (simp_all add: set_take_subset set_drop_subset)
  then show ?thesis
    by (auto simp: set_slice_none_def Let_def)
qed

lemma py_slice_subset: "set (py_slice l a b) \<subseteq> set l"
  unfolding py_slice_def Let_def
  by (meson set_take_subset set_drop_subset subset_trans)

lemma chunks_from_subset: "plot \<in> set (chunks_from i l n) \<Longrightarrow> set plot \<subseteq> set l"
proof (induction i l n rule: chunks_from.induct)
  case (1 i l n)
  show ?case
  proof (cases "n = 0 \<or> length l \<le> i")
    case True
    with 1(2) show ?thesis by (subst (asm) chunks_from.simps) simp
  next
    case False
    with 1(2) have "plot = py_slice l (int i) (int (i + n)) \<or> plot \<in> set (chunks_from (i + n) l n)"
      by (subst (asm) chunks_from.simps) (simp split: if_splits)
    then show ?thesis
    proof
      assume "plot = py_slice l (int i) (int (i + n))"
      then show ?thesis by (simp add: py_slice_subset)
    next
      assume "plot \<in> set (chunks_from (i + n) l n)"
      then show ?thesis using 1(1) False by simp
    qed
  qed
qed


subsection \<open>The page loop\<close>

lemma chunks_error: "chunks rec n = Inl e \<Longrightarrow> e = ValueError"
  by (simp add: chunks_def split: if_splits)

lemma chunks_subset: "chunks rec n = Inr cs \<Longrightarrow> plot \<in> set cs \<Longrightarrow> set plot \<subseteq> set rec"
  by (auto simp: chunks_def split: if_splits dest: chunks_from_subset)

lemma chunks_plottable:
  assumes "chunks rec n = Inr cs" and "list_all plottable rec" and "plot \<in> set cs"
  shows "list_all plottable plot"
  using chunks_subset [OF assms(1,3)] assms(2) by (auto simp: list_all_iff)

lemma alist_update_fresh: "k \<notin> fst ` set al \<Longrightarrow> AList.update k v al = al @ [(k, v)]"
  by (induction al) auto

lemma plot_pages_step:
  assumes "plot_pages f osl od fp seq (rec # rest) st = (None, st')"
  shows "plot_pages f osl od fp (seq + 1) rest
           (st\<lparr> files := AList.update (seq + 1) fp (files st),
                log := log st @ [Written (od @ str_nat (seq + 1) @ ''.svg''),
                                 Written (od @ str_nat (seq + 1) @ ''.svg'')],
                file_name := Some (od @ str_nat (seq + 1) @ ''.svg'') \<rparr>) = (None, st')"
  using assms by (simp add: Let_def split: sum.splits option.splits)

lemma plot_pages_closed:
  assumes "plot_pages f osl od fp seq recs st = (None, st')"
    and "\<And>k. k \<in> fst ` set (files st) \<Longrightarrow> k \<le> seq"
  shows "files st' = files st @ map (\<lambda>i. (i, fp)) [seq + 1..<seq + 1 + length recs] \<and>
         log st' = log st @ concat (map (\<lambda>i. [Written (od @ str_nat i @ ''.svg''),
                                                Written (od @ str_nat i @ ''.svg'')])
                                        [seq + 1..<seq + 1 + length recs]) \<and>
         file_name st' = (if recs = [] then file_name st
                          else Some (od @ str_nat (seq + length recs) @ ''.svg''))"
  using assms
proof (induction recs arbitrary: seq st)
  case Nil
  then show ?case by simp
next
  case (Cons rec rest)
  define st2 where "st2 = st\<lparr> files := AList.update (seq + 1) fp (files st),
                log := log st @ [Written (od @ str_nat (seq + 1) @ ''.svg''),
                                 Written (od @ str_nat (seq + 1) @ ''.svg'')],
                file_name := Some (od @ str_nat (seq + 1) @ ''.svg'') \<rparr>"
  have fresh: "seq + 1 \<notin> fst ` set (files st)"
    using Cons.prems(2) by fastforce
  then have f2: "files st2 = files st @ [(seq + 1, fp)]"
    by (simp add: st2_def alist_update_fresh)
  have step: "plot_pages f osl od fp (seq + 1) rest st2 = (None, st')"
    using plot_pages_step [OF Cons.prems(1)] by (simp add: st2_def)
  have keys: "\<And>k. k \<in> fst ` set (files st2) \<Longrightarrow> k \<le> seq + 1"
    using Cons.prems(2) f2 by fastforce
  have ih: "files st' = files st2 @ map (\<lambda>i. (i, fp)) [seq + 1 + 1..<seq + 1 + 1 + length rest] \<and>
         log st' = log st2 @ concat (map (\<lambda>i. [Written (od @ str_nat i @ ''.svg''),
                                                Written (od @ str_nat i @ ''.svg'')])
                                        [seq + 1 + 1..<seq + 1 + 1 + length rest]) \<and>
         file_name st' = (if rest = [] then file_name st2
                          else Some (od @ str_nat (seq + 1 + length rest) @ ''.svg''))"
    by (rule Cons.IH [OF step keys])
  have u: "[seq + 1..<seq + 1 + length (rec # rest)]
             = (seq + 1) # [seq + 1 + 1..<seq + 1 + 1 + length rest]"
  proof -
    have "seq + 1 < seq + 1 + length (rec # rest)" by simp
    then have "[seq + 1..<seq + 1 + length (rec # rest)]
                 = (seq + 1) # [Suc (seq + 1)..<seq + 1 + length (rec # rest)]"
      by (rule upt_conv_Cons)
    moreover have "Suc (seq + 1) = seq + 1 + 1"
      and "seq + 1 + length (rec # rest) = seq + 1 + 1 + length rest" by simp_all
    ultimately show ?thesis by (simp only:)
  qed
  have l2: "log st2 = log st @ [Written (od @ str_nat (seq + 1) @ ''.svg''),
                                 Written (od @ str_nat (seq + 1) @ ''.svg'')]"
    and n2: "file_name st2 = Some (od @ str_nat (seq + 1) @ ''.svg'')"
    by (simp_all add: st2_def)
  show ?case
    by (simp only: u ih f2 l2 n2) (cases rest; simp)
qed



lemma plot_pages_plottable:
  assumes "0 < f"
  shows "(\<And>rec. rec \<in> set recs \<Longrightarrow> list_all plottable rec) \<Longrightarrow>
           fst (plot_pages f osl od fp seq recs st) \<noteq> Some RenderingFailure"
proof (induction recs arbitrary: seq st)
  case Nil
  then show ?case by simp
next
  case (Cons rec rest)
  show ?case
  proof (cases "chunks rec (py_int osl)")
    case (Inl e)
    then show ?thesis using chunks_error [OF Inl] by simp
  next
    case (Inr cs)
    have nf: "plot_strips f osl 0 0 cs \<noteq> Some RenderingFailure"
      using chunks_plottable [OF Inr] Cons.prems
      by (intro plot_strips_no_failure [OF assms]) simp
    show ?thesis
    proof (cases "plot_strips f osl 0 0 cs")
      case None
      then show ?thesis using Inr Cons by (simp add: Let_def)
    next
      case (Some e')
      then show ?thesis using nf Inr by simp
    qed
  qed
qed

lemma chunks_no_int:
  assumes "chunks rec n = Inr cs" and "\<not> list_ex is_int rec" and "plot \<in> set cs"
  shows "array_dtype plot \<noteq> Int_dtype"
proof -
  have "\<not> list_ex is_int plot"
    using chunks_subset [OF assms(1,3)] assms(2) by (auto simp: list_ex_iff)
  then show ?thesis by (rule array_dtype_no_int)
qed

lemma plot_pages_ok:
  assumes "0 < f" and "1 \<le> py_int osl"
  shows "(\<And>rec. rec \<in> set recs \<Longrightarrow> list_all plottable rec \<and> \<not> list_ex is_int rec) \<Longrightarrow>
           fst (plot_pages f osl od fp seq recs st) = None"
proof (induction recs arbitrary: seq st)
  case Nil
  then show ?case by simp
next
  case (Cons rec rest)
  obtain cs where cs: "chunks rec (py_int osl) = Inr cs"
    using assms(2) by (simp add: chunks_def)
  have "plot_strips f osl 0 0 cs = None"
    using chunks_plottable [OF cs] chunks_no_int [OF cs] Cons.prems
    by (intro plot_strips_plottable [OF assms(1)]) simp
  then show ?case using cs Cons by (simp add: Let_def)
qed

subsection \<open>The body, case by case\<close>

lemma partition_length: "partition lst n = Inr ps \<Longrightarrow> length ps = nat n"
  by (auto simp: partition_def Let_def split: if_splits)

lemma partition_error: "partition lst n = Inl e \<Longrightarrow> e = ZeroDivisionError"
  by (auto simp: partition_def Let_def split: if_splits)

lemma partition_subset: "partition lst n = Inr ps \<Longrightarrow> p \<in> set ps \<Longrightarrow> set p \<subseteq> set lst"
  by (auto simp: partition_def Let_def split: if_splits dest: subsetD [OF py_slice_subset])

lemma padded_record_subset: "set (padded_record c f l) \<subseteq> insert SNone (set l)"
  by (auto simp: padded_record_eq)

lemma record_pages_subset:
  assumes "record_pages c f l = Inr ps" and "p \<in> set ps"
  shows "set p \<subseteq> insert SNone (set l)"
  using partition_subset [OF assms(1) [unfolded record_pages_def] assms(2)]
    padded_record_subset [of c f l]
  by blast

lemma record_pages_plottable:
  assumes "record_pages c f l = Inr ps" and "list_all plottable l" and "p \<in> set ps"
  shows "list_all plottable p"
  using record_pages_subset [OF assms(1,3)] assms(2)
  by (auto simp: list_all_iff)

lemma record_pages_no_int:
  assumes "record_pages c f l = Inr ps" and "\<not> list_ex is_int l" and "p \<in> set ps"
  shows "\<not> list_ex is_int p"
  using record_pages_subset [OF assms(1,3)] assms(2)
  by (auto simp: list_ex_iff)

text \<open>What a run that returns has returned, whatever the samples.\<close>

lemma plot_record_returned:
  assumes "returned (plot_record c alias ecg l od ofn ex meta f) = Inr m"
  shows "1 \<le> page_count c f l \<and>
         m = \<lparr> record_frequency = f, scale = plot_scale c,
               signals_num = length l + 125,
               record_time = py_round (real (length l) / f),
               output_files = map (\<lambda>i. (i, od @ ofn @ ''.'' @ ex)) [1..<nat (page_count c f l) + 1],
               display_information =
                 dict_update
                   [(''Record frequency'', Float_text f '' Hz''),
                    (''Scale'', Text (plot_scale c)),
                    (''No. of signals'', Number (length l + 125)),
                    (''Duration'', Text (str_int (py_round (real (length l) / f)) @ '' seconds''))]
                   meta \<rparr>"
proof -
  from assms obtain ps st name where
    ps: "record_pages c f l = Inr ps" and
    nm: "file_name st = Some name" and
    pp: "plot_pages f (one_strip_length c f) od (od @ ofn @ ''.'' @ ex) 0 ps
           \<lparr> files = [], log = [], file_name = None \<rparr> = (None, st)" and
    m: "m = \<lparr> record_frequency = f, scale = plot_scale c,
               signals_num = length (prepend_none l),
               record_time = py_round (real_of_int (int (length (prepend_none l)) - 125) / f),
               output_files = files st,
               display_information =
                 dict_update
                   [(''Record frequency'', Float_text f '' Hz''),
                    (''Scale'', Text (plot_scale c)),
                    (''No. of signals'', Number (length (prepend_none l))),
                    (''Duration'', Text (str_int (py_round (real_of_int (int (length (prepend_none l)) - 125) / f)) @ '' seconds''))]
                   meta \<rparr>"
    by (auto simp: plot_record_def Let_def finish_def
          split: if_splits sum.splits prod.splits option.splits)
  have len: "length ps = nat (page_count c f l)"
    using ps partition_length by (simp add: record_pages_def)
  have cl: "files st = map (\<lambda>i. (i, od @ ofn @ ''.'' @ ex)) [0 + 1..<0 + 1 + length ps]"
    "file_name st = (if ps = [] then None else Some (od @ str_nat (0 + length ps) @ ''.svg''))"
    using plot_pages_closed [OF pp] by simp_all
  have "ps \<noteq> []" using cl(2) nm by (auto split: if_splits)
  then have "1 \<le> page_count c f l" using len by (cases ps) simp_all
  then show ?thesis
    using cl(1) by (simp add: m len length_prepend_none)
qed

lemma plot_record_ok:
  assumes "0 < f" and "1 \<le> one_strip_length c f" and "0 < strips_per_page c"
    and "list_all plottable l" and "\<not> list_ex is_int l"
  shows "\<exists>m. returned (plot_record c alias ecg l od ofn ex meta f) = Inr m"
proof -
  have pos: "0 < one_strip_length c f" using assms(2) by simp
  obtain ps where ps: "record_pages c f l = Inr ps" and len: "length ps = nat (page_count c f l)"
    using partition_concat [of "page_count c f l" "padded_record c f l"]
      page_count_pos [OF assms(3) pos, of l]
    by (auto simp: record_pages_def)
  have ne: "ps \<noteq> []"
    using len page_count_pos [OF assms(3) pos, of l] by (cases ps) simp_all
  obtain e st where pp: "plot_pages f (one_strip_length c f) od (od @ ofn @ ''.'' @ ex) 0 ps
           \<lparr> files = [], log = [], file_name = None \<rparr> = (e, st)"
    by (cases "plot_pages f (one_strip_length c f) od (od @ ofn @ ''.'' @ ex) 0 ps
           \<lparr> files = [], log = [], file_name = None \<rparr>") blast
  have "e = None"
    using plot_pages_ok [OF assms(1) py_int_pos [OF assms(2)], of ps od "od @ ofn @ ''.'' @ ex" 0
        "\<lparr> files = [], log = [], file_name = None \<rparr>"]
      record_pages_plottable [OF ps assms(4)] record_pages_no_int [OF ps assms(5)] pp
    by simp
  then have pp': "plot_pages f (one_strip_length c f) od (od @ ofn @ ''.'' @ ex) 0 ps
           \<lparr> files = [], log = [], file_name = None \<rparr> = (None, st)"
    using pp by simp
  have "file_name st = Some (od @ str_nat (0 + length ps) @ ''.svg'')"
    using plot_pages_closed [OF pp'] ne by simp
  then show ?thesis
    using pos assms(3) ps pp' by (simp add: plot_record_def Let_def finish_def)
qed

lemma plot_record_after:
  "ecg_data_after (plot_record c alias ecg l od ofn ex meta f) =
     (if alias then
        PyList (if one_strip_length c f = 0 \<or> strips_per_page c = 0 then prepend_none l
                else padded_record c f l)
      else ecg)"
  by (simp add: plot_record_def Let_def finish_def
        split: sum.splits prod.splits option.splits)

lemma plot_record_not_rendering_failure:
  assumes "0 < f" and "list_all plottable l"
  shows "returned (plot_record c alias ecg l od ofn ex meta f) \<noteq> Inl RenderingFailure"
proof -
  have pg: "fst (plot_pages f (one_strip_length c f) od (od @ ofn @ ''.'' @ ex) 0 ps
           \<lparr> files = [], log = [], file_name = None \<rparr>) \<noteq> Some RenderingFailure"
    if "record_pages c f l = Inr ps" for ps
    using record_pages_plottable [OF that assms(2)]
    by (intro plot_pages_plottable [OF assms(1)]) simp
  have pe: "e = ZeroDivisionError" if "record_pages c f l = Inl e" for e
    using that partition_error by (simp add: record_pages_def)
  show ?thesis
    using pg pe
    by (auto simp: plot_record_def Let_def finish_def
          split: sum.splits prod.splits option.splits)
qed


subsection \<open>The whole function\<close>

lemma resolve_list [simp]: "resolve fs (PyList l) = Inr (PyList l)"
  by (simp add: resolve_def)

lemma resolve_cases:
  "(\<exists>l. resolve fs ecg = Inr (PyList l)) \<or> (\<exists>r. resolve fs ecg = Inl (SystemExit r)) \<or>
   (format_raises ecg \<and> resolve fs ecg = Inl TypeError)"
  by (cases ecg)
    (auto simp: resolve_def get_ecg_data_def format_raises_def
          split: file_read.splits pyval.splits)

lemma generate_resolved:
  assumes "ex \<in> set [''pdf'', ''jpg'', ''png'']" and "resolve fs ecg = Inr (PyList l)"
  shows "generate_ecg_graph c fs ecg od ofn ex meta kw =
           plot_record c (case ecg of PyList _ \<Rightarrow> True | _ \<Rightarrow> False) ecg l od ofn ex meta
             (frequency c kw)"
  using assms by (simp add: generate_ecg_graph_def)

lemma generate_returned_resolved:
  assumes "returned (generate_ecg_graph c fs ecg od ofn ex meta kw) = Inr m"
  shows "ex \<in> set [''pdf'', ''jpg'', ''png''] \<and> (\<exists>l. resolve fs ecg = Inr (PyList l))"
proof -
  have ex: "ex \<in> set [''pdf'', ''jpg'', ''png'']"
    using assms by (auto simp: generate_ecg_graph_def split: if_splits)
  moreover have "\<exists>l. resolve fs ecg = Inr (PyList l)"
    using resolve_cases [of fs ecg] assms ex
    by (auto simp: generate_ecg_graph_def)
  ultimately show ?thesis by blast
qed

lemma frequency_default [simp]:
  "frequency source_constants None = 250" "frequency c (Some x) = x"
  by (simp_all add: frequency_def source_constants_def)

text \<open>
  Claim C7. Whatever the other arguments, an export format outside
  \<^verbatim>\<open>pdf\<close>, \<^verbatim>\<open>jpg\<close>, \<^verbatim>\<open>png\<close> ends the call at line 143: no metadata is
  returned, no file is written, and the caller's data is untouched.
\<close>

theorem unsupported_export:
  assumes "export_to \<notin> {''pdf'', ''jpg'', ''png''}"
  shows "generate_ecg_graph c fs ecg_data output_dir output_file_name export_to meta kw =
           \<lparr> returned = Inl UnsupportedExport, ecg_data_after = ecg_data, effects = [] \<rparr>"
  using assms by (simp add: generate_ecg_graph_def)

theorem unsupported_export_witness:
  "''svg'' \<notin> {''pdf'', ''jpg'', ''png''} \<and>
   generate_ecg_graph source_constants no_files (PyList [SInt 1]) ''out/'' ''graph'' ''svg'' [] None =
     \<lparr> returned = Inl UnsupportedExport, ecg_data_after = PyList [SInt 1], effects = [] \<rparr>"
proof -
  have h: "''svg'' \<notin> {''pdf'', ''jpg'', ''png''}" by simp
  show ?thesis
    using unsupported_export [OF h, of source_constants no_files "PyList [SInt 1]" "''out/''"
        "''graph''" "[]" None] h
    by blast
qed

text \<open>
  Claim C9. At a positive sampling rate the time axis built for a strip has
  the length of its value axis, for every strip (whatever its start time and
  values); so when every sample of the resolved trace is a number or
  \<^verbatim>\<open>None\<close>, the \<^verbatim>\<open>except ValueError\<close> branch around \<^verbatim>\<open>ax.plot\<close> is never
  taken.
\<close>

theorem axes_equal_length:
  assumes "0 < frequency c kw" and "resolve fs ecg = Inr (PyList l)" and "list_all plottable l"
  shows "(\<forall>s data.
            length (fst (strip_axes (frequency c kw) s data)) =
            length (fst (snd (strip_axes (frequency c kw) s data)))) \<and>
         returned (generate_ecg_graph c fs ecg od ofn ex meta kw) \<noteq> Inl RenderingFailure"
proof (intro conjI allI)
  fix s data
  show "length (fst (strip_axes (frequency c kw) s data)) =
        length (fst (snd (strip_axes (frequency c kw) s data)))"
    by (rule strip_axes_lengths [OF assms(1)])
next
  show "returned (generate_ecg_graph c fs ecg od ofn ex meta kw) \<noteq> Inl RenderingFailure"
  proof (cases "ex \<in> set [''pdf'', ''jpg'', ''png'']")
    case True
    then show ?thesis
      using plot_record_not_rendering_failure [OF assms(1,3)]
      by (simp only: generate_resolved [OF True assms(2)] not_False_eq_True)
  next
    case False
    then show ?thesis by (simp add: generate_ecg_graph_def)
  qed
qed

theorem axes_equal_length_witness:
  "0 < frequency source_constants None \<and>
   resolve no_files (PyList [SFloat 1, SNone]) = Inr (PyList [SFloat 1, SNone]) \<and>
   list_all plottable [SFloat 1, SNone] \<and>
   (\<forall>s data.
      length (fst (strip_axes (frequency source_constants None) s data)) =
      length (fst (snd (strip_axes (frequency source_constants None) s data)))) \<and>
   returned (generate_ecg_graph source_constants no_files (PyList [SFloat 1, SNone])
               ''out/'' ''graph'' ''pdf'' [] None) \<noteq> Inl RenderingFailure"
proof -
  have h1: "0 < frequency source_constants None" by simp
  have h2: "resolve no_files (PyList [SFloat 1, SNone]) = Inr (PyList [SFloat 1, SNone])" by simp
  have h3: "list_all plottable [SFloat 1, SNone]" by simp
  show ?thesis
    using axes_equal_length [OF h1 h2 h3, of "''out/''" "''graph''" "''pdf''" "[]"] h1 h2 h3
    by blast
qed

subsection \<open>The metadata of a successful run\<close>

lemma generate_returned:
  assumes "returned (generate_ecg_graph c fs ecg od ofn ex meta kw) = Inr m"
    and "resolve fs ecg = Inr (PyList l)"
  shows "1 \<le> page_count c (frequency c kw) l \<and>
         m = \<lparr> record_frequency = frequency c kw, scale = plot_scale c,
               signals_num = length l + 125,
               record_time = py_round (real (length l) / frequency c kw),
               output_files = map (\<lambda>i. (i, od @ ofn @ ''.'' @ ex))
                                  [1..<nat (page_count c (frequency c kw) l) + 1],
               display_information =
                 dict_update
                   [(''Record frequency'', Float_text (frequency c kw) '' Hz''),
                    (''Scale'', Text (plot_scale c)),
                    (''No. of signals'', Number (length l + 125)),
                    (''Duration'',
                       Text (str_int (py_round (real (length l) / frequency c kw)) @ '' seconds''))]
                   meta \<rparr>"
proof -
  have ex: "ex \<in> set [''pdf'', ''jpg'', ''png'']"
    using generate_returned_resolved [OF assms(1)] by blast
  show ?thesis
    using assms(1) unfolding generate_resolved [OF ex assms(2)]
    by (rule plot_record_returned)
qed

lemma generate_list_ok:
  assumes "ex \<in> set [''pdf'', ''jpg'', ''png'']" and "0 < frequency c kw"
    and "1 \<le> one_strip_length c (frequency c kw)" and "0 < strips_per_page c"
    and "list_all plottable l" and "\<not> list_ex is_int l"
  shows "\<exists>m. returned (generate_ecg_graph c fs (PyList l) od ofn ex meta kw) = Inr m"
  unfolding generate_resolved [OF assms(1) resolve_list]
  by (rule plot_record_ok [OF assms(2-6)])

lemma str_nat_digit: "n < 10 \<Longrightarrow> str_nat n = [''0123456789'' ! n]"
  by (subst str_nat.simps) simp

lemma source_fields [simp]:
  "plot_scale source_constants = ''25mm/s, 10mm/mV''"
  "default_frequency source_constants = 250"
  by (simp_all add: source_constants_def)

lemma plottable_replicate_num: "list_all plottable (replicate n (SFloat x))"
  by (simp add: list_all_iff)

lemma no_int_replicate_float: "\<not> list_ex is_int (replicate n (SFloat x))"
  by (simp add: list_ex_iff)

text \<open>
  Claim C5, on the code: for 2000 samples at the defaults the run returns,
  and both \<^verbatim>\<open>signals_num\<close> and the \<^verbatim>\<open>No. of signals\<close> label are 2125, the
  count taken after the 125 markers were put in front, not the caller's 2000.
\<close>

theorem signal_count_includes_gap:
  "returned (generate_ecg_graph source_constants no_files (PyList (replicate 2000 (SFloat 1)))
               ''out/'' ''graph'' ''pdf'' [] None) =
     Inr \<lparr> record_frequency = 250, scale = ''25mm/s, 10mm/mV'',
           signals_num = 2125, record_time = 8,
           output_files = [(1, ''out/graph.pdf'')],
           display_information =
             [(''Record frequency'', Float_text 250 '' Hz''),
              (''Scale'', Text ''25mm/s, 10mm/mV''),
              (''No. of signals'', Number 2125),
              (''Duration'', Text ''8 seconds'')] \<rparr>"
proof -
  obtain m where m: "returned (generate_ecg_graph source_constants no_files
        (PyList (replicate 2000 (SFloat 1))) ''out/'' ''graph'' ''pdf'' [] None) = Inr m"
    using generate_list_ok [of "''pdf''" source_constants None "replicate 2000 (SFloat 1)"
        no_files "''out/''" "''graph''" "[]"]
    by (auto simp: plottable_replicate_num no_int_replicate_float)
  have pc: "page_count source_constants 250 (replicate 2000 (SFloat 1)) = 1"
    by (simp add: page_count_def raw_strip_count_def pad_strips_def no_of_strips_def
          extra_strips_needed_def length_prepend_none py_int_def)
  have rt: "py_round 8 = 8"
    using py_round_of_nat [of 8] by simp
  show ?thesis
    using generate_returned [OF m resolve_list]
    by (simp add: m pc rt dict_update_def str_int_def str_nat_digit)
qed


text \<open>
  Two runs on 400 samples at 250 Hz: with the constants of the source, and
  with 10-second strips, three to a page.
\<close>

lemma run_400_samples:
  "returned (generate_ecg_graph source_constants no_files (PyList (replicate 400 (SFloat 1)))
               ''out/'' ''graph'' ''pdf'' [] None) =
     Inr \<lparr> record_frequency = 250, scale = ''25mm/s, 10mm/mV'',
           signals_num = 525, record_time = 2,
           output_files = [(1, ''out/graph.pdf'')],
           display_information =
             [(''Record frequency'', Float_text 250 '' Hz''),
              (''Scale'', Text ''25mm/s, 10mm/mV''),
              (''No. of signals'', Number 525),
              (''Duration'', Text ''2 seconds'')] \<rparr>"
proof -
  obtain m where m: "returned (generate_ecg_graph source_constants no_files
        (PyList (replicate 400 (SFloat 1))) ''out/'' ''graph'' ''pdf'' [] None) = Inr m"
    using generate_list_ok [of "''pdf''" source_constants None "replicate 400 (SFloat 1)"
        no_files "''out/''" "''graph''" "[]"]
    by (auto simp: plottable_replicate_num no_int_replicate_float)
  have pc: "page_count source_constants 250 (replicate 400 (SFloat 1)) = 1"
    by (simp add: page_count_def raw_strip_count_def pad_strips_def no_of_strips_def
          extra_strips_needed_def length_prepend_none py_int_def)
  have rt: "py_round (8 / 5) = 2"
    by (simp add: py_round_def)
  show ?thesis
    using generate_returned [OF m resolve_list]
    by (simp add: m pc rt dict_update_def str_int_def str_nat_digit)
qed

lemma run_400_samples_other:
  "returned (generate_ecg_graph (source_constants\<lparr>one_strip_time := 10, strips_per_page := 3\<rparr>)
               no_files (PyList (replicate 400 (SFloat 1))) ''out/'' ''graph'' ''pdf'' [] None) =
     Inr \<lparr> record_frequency = 250, scale = ''25mm/s, 10mm/mV'',
           signals_num = 525, record_time = 2,
           output_files = [(1, ''out/graph.pdf'')],
           display_information =
             [(''Record frequency'', Float_text 250 '' Hz''),
              (''Scale'', Text ''25mm/s, 10mm/mV''),
              (''No. of signals'', Number 525),
              (''Duration'', Text ''2 seconds'')] \<rparr>"
proof -
  define c where "c = source_constants\<lparr>one_strip_time := 10, strips_per_page := 3\<rparr>"
  have c: "one_strip_length c f = 10 * f" "strips_per_page c = 3" "frequency c None = 250"
    "plot_scale c = ''25mm/s, 10mm/mV''" for f
    by (simp_all add: c_def one_strip_length_def frequency_def source_constants_def)
  obtain m where m: "returned (generate_ecg_graph c no_files
        (PyList (replicate 400 (SFloat 1))) ''out/'' ''graph'' ''pdf'' [] None) = Inr m"
    using generate_list_ok [of "''pdf''" c None "replicate 400 (SFloat 1)"
        no_files "''out/''" "''graph''" "[]"]
    by (auto simp: plottable_replicate_num no_int_replicate_float c)
  have pc: "page_count c 250 (replicate 400 (SFloat 1)) = 1"
    by (simp add: page_count_def raw_strip_count_def pad_strips_def no_of_strips_def
          extra_strips_needed_def length_prepend_none py_int_def c)
  have rt: "py_round (8 / 5) = 2"
    by (simp add: py_round_def)
  show ?thesis
    using generate_returned [OF m resolve_list]
    by (simp add: m pc rt c dict_update_def str_int_def str_nat_digit flip: c_def)
qed

text \<open>
  Claim C4 as stated fails: 400 samples at 250 Hz give \<^verbatim>\<open>record_time\<close> 2,
  the rounding of 400 / 250, while the claimed
  \<open>round((N_original - 125) / sampling_rate)\<close> is the rounding of 275 / 250,
  which is 1.
\<close>

theorem record_time_counterexample:
  "returned (generate_ecg_graph source_constants no_files (PyList (replicate 400 (SFloat 1)))
               ''out/'' ''graph'' ''pdf'' [] None) =
     Inr \<lparr> record_frequency = 250, scale = ''25mm/s, 10mm/mV'',
           signals_num = 525, record_time = 2,
           output_files = [(1, ''out/graph.pdf'')],
           display_information =
             [(''Record frequency'', Float_text 250 '' Hz''),
              (''Scale'', Text ''25mm/s, 10mm/mV''),
              (''No. of signals'', Number 525),
              (''Duration'', Text ''2 seconds'')] \<rparr> \<and>
   py_round ((400 - 125) / 250) = 1"
proof -
  have "py_round ((400 - 125) / 250) = 1"
    by (simp add: py_round_def)
  then show ?thesis using run_400_samples by simp
qed

text \<open>
  Claim C4, amended. The returned \<^verbatim>\<open>record_time\<close> is the caller's own sample
  count divided by the sampling rate and rounded to the nearest whole second
  (the code subtracts 125 from the count taken after the 125 markers were put
  in). It is the same under any other strip duration and strips per page
  for which the run returns.
\<close>

theorem record_time_formula:
  assumes "returned (generate_ecg_graph c fs ecg od ofn ex meta kw) = Inr m"
    and "resolve fs ecg = Inr (PyList l)"
  shows "record_time m = py_round (real (length l) / frequency c kw) \<and>
         (\<forall>c' m'. frequency c' kw = frequency c kw \<and>
                  returned (generate_ecg_graph c' fs ecg od ofn ex meta kw) = Inr m'
                \<longrightarrow> record_time m' = record_time m)"
proof (intro conjI allI impI)
  show a: "record_time m = py_round (real (length l) / frequency c kw)"
    using generate_returned [OF assms] by simp
  fix c' m'
  assume h: "frequency c' kw = frequency c kw \<and>
             returned (generate_ecg_graph c' fs ecg od ofn ex meta kw) = Inr m'"
  then have "record_time m' = py_round (real (length l) / frequency c' kw)"
    using generate_returned [of c' fs ecg od ofn ex meta kw m' l] assms(2) by simp
  then show "record_time m' = record_time m" using a h by simp
qed


theorem record_time_formula_witness:
  "returned (generate_ecg_graph source_constants no_files (PyList (replicate 400 (SFloat 1)))
               ''out/'' ''graph'' ''pdf'' [] None) =
     Inr \<lparr> record_frequency = 250, scale = ''25mm/s, 10mm/mV'',
           signals_num = 525, record_time = 2,
           output_files = [(1, ''out/graph.pdf'')],
           display_information =
             [(''Record frequency'', Float_text 250 '' Hz''),
              (''Scale'', Text ''25mm/s, 10mm/mV''),
              (''No. of signals'', Number 525),
              (''Duration'', Text ''2 seconds'')] \<rparr> \<and>
   resolve no_files (PyList (replicate 400 (SFloat 1))) = Inr (PyList (replicate 400 (SFloat 1))) \<and>
   py_round (real (length (replicate 400 (SFloat 1))) / frequency source_constants None) = 2 \<and>
   frequency (source_constants\<lparr>one_strip_time := 10, strips_per_page := 3\<rparr>) None =
     frequency source_constants None \<and>
   record_time (projr (returned (generate_ecg_graph
       (source_constants\<lparr>one_strip_time := 10, strips_per_page := 3\<rparr>)
       no_files (PyList (replicate 400 (SFloat 1))) ''out/'' ''graph'' ''pdf'' [] None))) = 2"
proof -
  have f: "frequency (source_constants\<lparr>one_strip_time := 10, strips_per_page := 3\<rparr>) None =
     frequency source_constants None"
    by (simp add: frequency_def)
  show ?thesis
    using record_time_formula [OF run_400_samples resolve_list] f run_400_samples_other
      run_400_samples
    by auto
qed

subsection \<open>The caller's list after the call\<close>

lemma generate_after_list:
  assumes "ex \<in> set [''pdf'', ''jpg'', ''png'']"
  shows "ecg_data_after (generate_ecg_graph c fs (PyList l) od ofn ex meta kw) =
           PyList (if one_strip_length c (frequency c kw) = 0 \<or> strips_per_page c = 0
                   then prepend_none l else padded_record c (frequency c kw) l)"
  unfolding generate_resolved [OF assms resolve_list]
  by (simp add: plot_record_after)


lemma run_one_sample_after:
  "ecg_data_after (generate_ecg_graph source_constants no_files (PyList [SFloat 1])
                     ''out/'' ''graph'' ''pdf'' [] None) =
     PyList (replicate 125 SNone @ [SFloat 1] @ replicate 6000 SNone)"
proof -
  have n: "nat (pad_strips source_constants 250 [SFloat 1])
             * nat (py_int (one_strip_length source_constants 250)) = 6000"
    by (simp add: pad_strips_def raw_strip_count_def length_prepend_none no_of_strips_def
          extra_strips_needed_def py_int_def)
  have "padded_record source_constants 250 [SFloat 1] =
          replicate 125 SNone @ [SFloat 1] @ replicate 6000 SNone"
    by (simp only: padded_record_eq n)
  then show ?thesis
    by (simp add: generate_after_list)
qed

lemma generate_signals_num:
  assumes "0 < frequency c kw"
    and "1 \<le> one_strip_length c (frequency c kw)" and "0 < strips_per_page c"
    and "list_all plottable l" and "\<not> list_ex is_int l"
  shows "map_sum id signals_num (returned (generate_ecg_graph c fs (PyList l) od ofn ''pdf'' meta kw))
           = Inr (length l + 125)"
proof -
  obtain m where m: "returned (generate_ecg_graph c fs (PyList l) od ofn ''pdf'' meta kw) = Inr m"
    using generate_list_ok [of "''pdf''" c kw l fs od ofn meta] assms by auto
  show ?thesis
    using generate_returned [OF m resolve_list] by (simp add: m)
qed

text \<open>
  Claim C6, on the code: called on the one-sample list \<^verbatim>\<open>[1.0]\<close> with the
  defaults, the function leaves in the caller's own list 125 \<^verbatim>\<open>None\<close>, the
  sample, and 6000 more \<^verbatim>\<open>None\<close>. Line 151 binds \<^verbatim>\<open>record\<close> to the caller's
  list object, and lines 162 and 182 insert into it and append to it. So a
  second call on the same list object meets 6126 samples and reports 6251
  signals, where the first reported 126.
\<close>

theorem caller_list_is_changed:
  "ecg_data_after (generate_ecg_graph source_constants no_files (PyList [SFloat 1])
                     ''out/'' ''graph'' ''pdf'' [] None) =
     PyList (replicate 125 SNone @ [SFloat 1] @ replicate 6000 SNone) \<and>
   ecg_data_after (generate_ecg_graph source_constants no_files (PyList [SFloat 1])
                     ''out/'' ''graph'' ''pdf'' [] None) \<noteq> PyList [SFloat 1] \<and>
   map_sum id signals_num
     (returned (generate_ecg_graph source_constants no_files (PyList [SFloat 1])
                  ''out/'' ''graph'' ''pdf'' [] None)) = Inr 126 \<and>
   map_sum id signals_num
     (returned (generate_ecg_graph source_constants no_files
                  (PyList (replicate 125 SNone @ [SFloat 1] @ replicate 6000 SNone))
                  ''out/'' ''graph'' ''pdf'' [] None)) = Inr 6251"
proof -
  have "length (replicate 125 SNone @ [SFloat 1] @ replicate 6000 SNone) \<noteq> length [SFloat 1]"
    by simp
  then have ne: "replicate 125 SNone @ [SFloat 1] @ replicate 6000 SNone \<noteq> [SFloat 1]"
    by metis
  have p: "list_all plottable (replicate 125 SNone @ [SFloat 1] @ replicate 6000 SNone)"
    by (simp add: list_all_iff)
  have q: "\<not> list_ex is_int (replicate 125 SNone @ [SFloat 1] @ replicate 6000 SNone)"
    by (simp add: list_ex_iff)
  have first: "map_sum id signals_num
     (returned (generate_ecg_graph source_constants no_files (PyList [SFloat 1])
                  ''out/'' ''graph'' ''pdf'' [] None)) = Inr 126"
    using generate_signals_num [of source_constants None "[SFloat 1]" no_files "''out/''"
        "''graph''" "[]"]
    by simp
  have second: "map_sum id signals_num
     (returned (generate_ecg_graph source_constants no_files
                  (PyList (replicate 125 SNone @ [SFloat 1] @ replicate 6000 SNone))
                  ''out/'' ''graph'' ''pdf'' [] None)) = Inr 6251"
    using generate_signals_num [of source_constants None
        "replicate 125 SNone @ [SFloat 1] @ replicate 6000 SNone" no_files "''out/''"
        "''graph''" "[]", OF _ _ _ p q]
    by simp
  show ?thesis
    using ne first second by (simp only: run_one_sample_after pyval.inject simp_thms)
qed

subsection \<open>The output files dictionary\<close>

lemma svg_path_differs:
  assumes "ex \<in> set [''pdf'', ''jpg'', ''png'']"
  shows "od @ str_nat k @ ''.svg'' \<noteq> od @ ofn @ ''.'' @ ex"
proof
  assume "od @ str_nat k @ ''.svg'' = od @ ofn @ ''.'' @ ex"
  then have "(str_nat k @ ''.'') @ ''svg'' = (ofn @ ''.'') @ ex" by simp
  moreover have "length ''svg'' = length ex" using assms by auto
  ultimately have "''svg'' = ex" by (metis append_eq_append_conv)
  then show False using assms by auto
qed

lemma map_of_const_range:
  "map_of (map (\<lambda>i. (i, v)) [a..<b]) i = (if a \<le> i \<and> i < b then Some v else None)"
  by (simp add: map_of_map_restrict restrict_map_def)

text \<open>
  Claim C10. In the metadata a run returns, \<^verbatim>\<open>output_files\<close> has exactly the
  keys 1 to the page count, of which there is at least one, and every one of
  them has the value \<^verbatim>\<open>output_dir + output_file_name + '.' + export_to\<close>; no
  \<^verbatim>\<open>output_dir + str(page) + '.svg'\<close> is a value of it.
\<close>

theorem output_files_one_path:
  assumes "returned (generate_ecg_graph c fs ecg od ofn ex meta kw) = Inr m"
    and "resolve fs ecg = Inr (PyList l)"
  shows "1 \<le> page_count c (frequency c kw) l \<and>
         output_files m =
           map (\<lambda>i. (i, od @ ofn @ ''.'' @ ex)) [1..<nat (page_count c (frequency c kw) l) + 1] \<and>
         (\<forall>i. map_of (output_files m) i =
                (if 1 \<le> i \<and> int i \<le> page_count c (frequency c kw) l
                 then Some (od @ ofn @ ''.'' @ ex) else None)) \<and>
         (\<forall>i k. map_of (output_files m) i \<noteq> Some (od @ str_nat k @ ''.svg''))"
proof -
  have ex: "ex \<in> set [''pdf'', ''jpg'', ''png'']"
    using generate_returned_resolved [OF assms(1)] by blast
  have pc: "1 \<le> page_count c (frequency c kw) l"
    and of: "output_files m =
           map (\<lambda>i. (i, od @ ofn @ ''.'' @ ex)) [1..<nat (page_count c (frequency c kw) l) + 1]"
    using generate_returned [OF assms] by simp_all
  have look: "map_of (output_files m) i =
                (if 1 \<le> i \<and> int i \<le> page_count c (frequency c kw) l
                 then Some (od @ ofn @ ''.'' @ ex) else None)" for i
    using pc by (simp only: of map_of_const_range) auto
  have "map_of (output_files m) i \<noteq> Some (od @ str_nat k @ ''.svg'')" for i k
    using svg_path_differs [OF ex, of od k ofn] by (simp add: look)
  then show ?thesis using pc of look by blast
qed

lemma run_10000_samples:
  "returned (generate_ecg_graph source_constants no_files (PyList (replicate 10000 (SFloat 1)))
               ''out/'' ''graph'' ''pdf'' [] None) =
     Inr \<lparr> record_frequency = 250, scale = ''25mm/s, 10mm/mV'',
           signals_num = 10125, record_time = 40,
           output_files = [(1, ''out/graph.pdf''), (2, ''out/graph.pdf'')],
           display_information =
             [(''Record frequency'', Float_text 250 '' Hz''),
              (''Scale'', Text ''25mm/s, 10mm/mV''),
              (''No. of signals'', Number 10125),
              (''Duration'', Text ''40 seconds'')] \<rparr>"
proof -
  obtain m where m: "returned (generate_ecg_graph source_constants no_files
        (PyList (replicate 10000 (SFloat 1))) ''out/'' ''graph'' ''pdf'' [] None) = Inr m"
    using generate_list_ok [of "''pdf''" source_constants None "replicate 10000 (SFloat 1)"
        no_files "''out/''" "''graph''" "[]"]
    by (auto simp: plottable_replicate_num no_int_replicate_float)
  have pc: "page_count source_constants 250 (replicate 10000 (SFloat 1)) = 2"
    by (simp add: page_count_def raw_strip_count_def pad_strips_def no_of_strips_def
          extra_strips_needed_def length_prepend_none py_int_def)
  have rt: "py_round 40 = 40"
    using py_round_of_nat [of 40] by simp
  have s: "str_nat 40 = ''40''"
    by (subst str_nat.simps) (simp add: str_nat_digit)
  have u: "[Suc 0..<3] = [Suc 0, 2]"
    by (simp add: eval_nat_numeral)
  show ?thesis
    using generate_returned [OF m resolve_list]
    by (simp add: m pc rt s u dict_update_def str_int_def)
qed

theorem output_files_one_path_witness:
  "returned (generate_ecg_graph source_constants no_files (PyList (replicate 10000 (SFloat 1)))
               ''out/'' ''graph'' ''pdf'' [] None) =
     Inr \<lparr> record_frequency = 250, scale = ''25mm/s, 10mm/mV'',
           signals_num = 10125, record_time = 40,
           output_files = [(1, ''out/graph.pdf''), (2, ''out/graph.pdf'')],
           display_information =
             [(''Record frequency'', Float_text 250 '' Hz''),
              (''Scale'', Text ''25mm/s, 10mm/mV''),
              (''No. of signals'', Number 10125),
              (''Duration'', Text ''40 seconds'')] \<rparr> \<and>
   resolve no_files (PyList (replicate 10000 (SFloat 1))) =
     Inr (PyList (replicate 10000 (SFloat 1))) \<and>
   1 \<le> page_count source_constants (frequency source_constants None)
          (replicate 10000 (SFloat 1)) \<and>
   (\<forall>i k. map_of [(1 :: nat, ''out/graph.pdf''), (2, ''out/graph.pdf'')] i
            \<noteq> Some (''out/'' @ str_nat k @ ''.svg''))"
proof -
  have sel: "output_files \<lparr> record_frequency = 250, scale = ''25mm/s, 10mm/mV'',
           signals_num = 10125, record_time = 40,
           output_files = [(1, ''out/graph.pdf''), (2, ''out/graph.pdf'')],
           display_information =
             [(''Record frequency'', Float_text 250 '' Hz''),
              (''Scale'', Text ''25mm/s, 10mm/mV''),
              (''No. of signals'', Number 10125),
              (''Duration'', Text ''40 seconds'')] \<rparr> =
         [(1, ''out/graph.pdf''), (2, ''out/graph.pdf'')]"
    by simp
  show ?thesis
    using output_files_one_path [OF run_10000_samples resolve_list, unfolded sel]
      run_10000_samples resolve_list [of no_files "replicate 10000 (SFloat 1)"]
    by blast
qed

subsection \<open>Input that is not a trace\<close>










subsection \<open>The length of a drawn strip\<close>




















end
